theory Spec2Isabelle
  imports Complex_Main "HOL-Library.Multiset"
begin

section \<open>Expression handlers (struct\_cons\_expr.h)\<close>

text \<open>
  A callback member of a C struct is a function pointer that may be NULL. The model keeps
  the address of the function only; NULL is \<open>None\<close>. The handler data is opaque
  to the header and is kept as an address as well.
\<close>

type_synonym funptr = nat

type_synonym SCIP_CONSEXPR_EXPRHDLRDATA = nat

text \<open>
  \<open>struct SCIP_ConsExpr_ExprHdlr\<close>: the members in the order of the header. The
  description and the data can be NULL, and so can every callback.
\<close>

record SCIP_ConsExpr_ExprHdlr =
  name :: string
  desc :: "string option"
  data :: "SCIP_CONSEXPR_EXPRHDLRDATA option"
  copyhdlr :: "funptr option"
  freehdlr :: "funptr option"
  copydata :: "funptr option"
  freedata :: "funptr option"
  print :: "funptr option"





section \<open>The FlatZinc reader (reader\_fzn.c)\<close>

text \<open>
  The reader is modelled function by function. A C function that works on the reader's
  \<open>FZNINPUT\<close> and on the solver becomes a function from a state to either a fault or
  a result with the new state. The faults are: a loop ran out of the fuel it was given
  (\<open>OutOfFuel\<close>), the source has no defined behaviour at this point (\<open>Undefined\<close>: it
  dereferences a NULL pointer, reads an object that was never written, or writes past an
  array), and a solver call refused (\<open>Error\<close> with its return code, which the
  \<open>SCIP_CALL\<close> macro passes on). Assertions are not part of the model: they are
  compiled out of a release build. Memory allocation is taken to succeed.

  Return codes, results and the solver's types are declared in headers that are not among
  the sources; only the values the reader uses are listed.
\<close>

datatype SCIP_RETCODE = SCIP_OKAY | SCIP_NOFILE | SCIP_PARSEERROR | SCIP_INVALIDCALL
datatype SCIP_RESULT = SCIP_DIDNOTRUN | SCIP_SUCCESS
datatype SCIP_OBJSENSE = SCIP_OBJSENSE_MAXIMIZE | SCIP_OBJSENSE_MINIMIZE
datatype SCIP_VARTYPE = SCIP_VARTYPE_BINARY | SCIP_VARTYPE_INTEGER | SCIP_VARTYPE_CONTINUOUS

text \<open>
  \<open>SCIP_Real\<close> is a C double. The model takes it as a real number: the reader only
  parses, compares and passes these values on.
\<close>

type_synonym SCIP_Real = real

text \<open>
  Modelled from the spec: the solver, which the specification keeps outside its scope as an
  external collaborator (scip.h and the constraint handlers are not among the sources). A
  problem is its name, the variables and constraints added to it in order, and its
  objective sense. A variable pointer is the position of the variable in the problem.
\<close>

record SCIP_VAR =
  var_name :: string
  var_lb :: SCIP_Real
  var_ub :: SCIP_Real
  var_obj :: SCIP_Real
  var_type :: SCIP_VARTYPE

datatype SCIP_CONS =
  ConsLinear string "nat list" "SCIP_Real list" SCIP_Real SCIP_Real
  | ConsOr string nat "nat list"
  | ConsAnd string nat "nat list"
  | ConsXor string bool "nat list"

record SCIP_PROB =
  prob_name :: string
  prob_vars :: "SCIP_VAR list"
  prob_conss :: "SCIP_CONS list"
  prob_objsense :: SCIP_OBJSENSE

text \<open>
  The messages that the reader passes to the message handler, in order, each with the text
  \<open>printf\<close> would produce from the format and its arguments.
\<close>

datatype message =
  VerbMessage string | WarningMessage string | ErrorMessage string | SysError string

record SCIP =
  origprob :: "SCIP_PROB option"
  messages :: "message list"

datatype FZNNUMBERTYPE = FZN_BOOL | FZN_INT | FZN_FLOAT
datatype FZNEXPTYPE = FZN_EXP_NONE | FZN_EXP_UNSIGNED | FZN_EXP_SIGNED

record FZNCONSTANT =
  const_name :: string
  const_type :: FZNNUMBERTYPE
  const_value :: SCIP_Real

text \<open>
  An open stream: the bytes not yet read and the end-of-file indicator of the C library.
\<close>

record SCIP_FILE =
  unread :: string
  eof :: bool

text \<open>
  \<open>struct FznInput\<close>. The member \<open>file\<close> is named \<open>infile\<close> here, and the
  members \<open>name\<close>, \<open>type\<close> and \<open>value\<close> of \<open>struct FznConstant\<close> above
  carry the prefix \<open>const_\<close>. The line buffer and the token buffers are C strings and
  are kept without their terminating zero. There is one buffer for pushed tokens
  (\<open>FZN_MAX_PUSHEDTOKENS\<close> is 1). A buffer or a flag that the source has not written yet
  is \<open>None\<close>: the reader allocates the pushed-token buffer and declares \<open>hasdot\<close>
  without initialising them. The two hash tables are association lists from names to
  entries, newest first.
\<close>

record FZNINPUT =
  infile :: "SCIP_FILE option"
  varHashtable :: "(string \<times> nat) list"
  constantHashtable :: "(string \<times> FZNCONSTANT) list"
  constants :: "FZNCONSTANT list"
  linebuf :: string
  token :: "string option"
  pushedtokens :: "string option"
  npushedtokens :: nat
  linenumber :: int
  linepos :: int
  bufpos :: nat
  nconstants :: nat
  sconstants :: nat
  objsense :: SCIP_OBJSENSE
  hasdot :: "bool option"
  endline :: bool
  haserror :: bool
  valid :: bool

text \<open>
  The state that the reader's functions work on: the solver, the reader's input struct,
  the files that \<open>SCIPfopen\<close> can open (by name) and the number of streams that
  are open.
\<close>

record state =
  scip :: SCIP
  fzninput :: FZNINPUT
  files :: "(string \<times> string) list"
  nopen :: nat

datatype fault = OutOfFuel | Undefined | Error SCIP_RETCODE

type_synonym 'a fzn = "state \<Rightarrow> fault + ('a \<times> state)"

text \<open>
  Sequencing: \<open>bnd\<close> passes the result and the state of a call on to the rest of the
  function body, and a fault ends the run. \<open>gets\<close> reads the input struct,
  \<open>upd\<close> writes it, and \<open>determinate\<close> reads an object that may not have been
  written.
\<close>

definition ret :: "'a \<Rightarrow> 'a fzn" where
  "ret x = (\<lambda>s. Inr (x, s))"

definition bnd :: "'a fzn \<Rightarrow> ('a \<Rightarrow> 'b fzn) \<Rightarrow> 'b fzn" where
  "bnd m f = (\<lambda>s. case m s of Inl e \<Rightarrow> Inl e | Inr (x, s') \<Rightarrow> f x s')"

definition seq :: "unit fzn \<Rightarrow> 'b fzn \<Rightarrow> 'b fzn" where
  "seq m k = bnd m (\<lambda>_. k)"

definition fault :: "fault \<Rightarrow> 'a fzn" where
  "fault e = (\<lambda>s. Inl e)"

definition gets :: "(FZNINPUT \<Rightarrow> 'a) \<Rightarrow> 'a fzn" where
  "gets f = (\<lambda>s. Inr (f (fzninput s), s))"

definition upd :: "(FZNINPUT \<Rightarrow> FZNINPUT) \<Rightarrow> unit fzn" where
  "upd f = (\<lambda>s. Inr ((), s\<lparr>fzninput := f (fzninput s)\<rparr>))"

definition determinate :: "'a option \<Rightarrow> 'a fzn" where
  "determinate v = (case v of None \<Rightarrow> fault Undefined | Some x \<Rightarrow> ret x)"

definition message :: "message \<Rightarrow> unit fzn" where
  "message m = (\<lambda>s. Inr ((), s\<lparr>scip := (scip s)\<lparr>messages := messages (scip s) @ [m]\<rparr>\<rparr>))"

definition FZN_BUFFERLEN :: nat where
  "FZN_BUFFERLEN = 65536"

definition NUL :: char where
  "NUL = CHR 0x00"

definition delimchars :: string where
  "delimchars = [CHR '' '', CHR 0x0C, CHR 0x0A, CHR 0x0D, CHR 0x09, CHR 0x0B]"

definition tokenchars :: string where
  "tokenchars = '':<>=;{}[],()''"

definition commentchars :: string where
  "commentchars = ''%''"

text \<open>
  The character classes of the C library, in the C locale.
\<close>

definition isdigit :: "char \<Rightarrow> bool" where
  "isdigit c = (c \<in> set ''0123456789'')"

definition isalpha :: "char \<Rightarrow> bool" where
  "isalpha c = (c \<in> set ''abcdefghijklmnopqrstuvwxyzABCDEFGHIJKLMNOPQRSTUVWXYZ'')"

definition isalnum :: "char \<Rightarrow> bool" where
  "isalnum c = (isalpha c \<or> isdigit c)"

text \<open>
  The decimal digits that \<open>printf\<close> writes for \<open>%d\<close>.
\<close>

fun string_of_nat :: "nat \<Rightarrow> string" where
  "string_of_nat n =
     (if n < 10 then [''0123456789'' ! n]
      else string_of_nat (n div 10) @ [''0123456789'' ! (n mod 10)])"

declare string_of_nat.simps [simp del]

definition string_of_int :: "int \<Rightarrow> string" where
  "string_of_int i = (if i < 0 then CHR ''-'' # string_of_nat (nat (- i)) else string_of_nat (nat i))"


text \<open>
  \<open>strchr s c \<noteq> NULL\<close>: the terminating zero counts as part of the string.
  \<open>strrchr\<close> gives the position of the last occurrence.
\<close>

definition strchr_found :: "string \<Rightarrow> char \<Rightarrow> bool" where
  "strchr_found s c = (c = NUL \<or> c \<in> set s)"

fun strrchr :: "string \<Rightarrow> char \<Rightarrow> nat option" where
  "strrchr [] c = None"
| "strrchr (x # xs) c =
     (case strrchr xs c of
        Some i \<Rightarrow> Some (Suc i)
      | None \<Rightarrow> if x = c then Some 0 else None)"

definition cstring :: "string \<Rightarrow> string" where
  "cstring bytes = takeWhile (\<lambda>c. c \<noteq> NUL) bytes"

subsection \<open>Errors and tokens\<close>

definition syntaxError :: "string \<Rightarrow> unit fzn" where
  "syntaxError msg =
     bnd (gets linenumber) (\<lambda>ln.
     bnd (bnd (gets token) determinate) (\<lambda>tok.
     bnd (gets linebuf) (\<lambda>buf.
     seq (message (VerbMessage (''Syntax error in line '' @ string_of_int ln @ '': '' @ msg
            @ '' found <'' @ tok @ ''>\<newline>'')))
     (seq (message (VerbMessage (''  input: '' @ buf)))
     (seq (message (VerbMessage ''\<newline>''))
     (upd (\<lambda>i. i\<lparr>haserror := True\<rparr>)))))))"

definition hasError :: "FZNINPUT \<Rightarrow> bool" where
  "hasError i = (haserror i \<or> \<not> valid i)"

definition isDelimChar :: "char \<Rightarrow> bool" where
  "isDelimChar c = (c = NUL \<or> strchr_found delimchars c)"

definition isTokenChar :: "char \<Rightarrow> bool" where
  "isTokenChar c = strchr_found tokenchars c"

definition isChar :: "string \<Rightarrow> char \<Rightarrow> bool" where
  "isChar tok c = (length tok = 1 \<and> tok ! 0 = c)"

definition isBoolExp :: "string \<Rightarrow> bool \<times> bool option" where
  "isBoolExp nm =
     (if length nm = 4 \<or> take 4 nm \<noteq> ''true'' then (True, Some True)
      else if length nm = 5 \<or> take 5 nm \<noteq> ''false'' then (True, Some False)
      else (False, None))"

definition isIdentifier :: "string \<Rightarrow> bool" where
  "isIdentifier nm =
     (case nm of
        [] \<Rightarrow> False
      | c # cs \<Rightarrow> isalpha c \<and> list_all (\<lambda>d. isalnum d \<or> d = CHR ''_'') cs)"

definition isValueChar ::
  "char \<Rightarrow> char \<Rightarrow> bool \<Rightarrow> bool \<Rightarrow> FZNEXPTYPE \<Rightarrow> bool \<times> bool \<times> FZNEXPTYPE" where
  "isValueChar c nextc firstchar hdot exptype =
     (if isdigit c then (True, hdot, exptype)
      else if firstchar \<and> (c = CHR ''+'' \<or> c = CHR ''-'') then (True, hdot, exptype)
      else if exptype = FZN_EXP_NONE \<and> \<not> hdot \<and> c = CHR ''.'' \<and> isdigit nextc
        then (True, True, exptype)
      else if \<not> firstchar \<and> exptype = FZN_EXP_NONE \<and> (c = CHR ''e'' \<or> c = CHR ''E'') then
        (if nextc = CHR ''+'' \<or> nextc = CHR ''-'' then (True, hdot, FZN_EXP_SIGNED)
         else if isdigit nextc then (True, hdot, FZN_EXP_UNSIGNED)
         else (False, hdot, exptype))
      else if exptype = FZN_EXP_SIGNED \<and> (c = CHR ''+'' \<or> c = CHR ''-'')
        then (True, hdot, FZN_EXP_UNSIGNED)
      else (False, hdot, exptype))"

definition strncmp_eq :: "string \<Rightarrow> string \<Rightarrow> nat \<Rightarrow> bool" where
  "strncmp_eq s1 s2 n = (take n s1 = take n s2)"

definition equalTokens :: "string \<Rightarrow> string \<Rightarrow> bool" where
  "equalTokens token1 token2 =
     (if length token1 \<noteq> length token2 then False
      else strncmp_eq token1 token2 (length token2))"

text \<open>
  \<open>SCIPfgets\<close> reads at most \<open>size - 1\<close> bytes and stops after a newline; it
  returns NULL when nothing is left. The end-of-file indicator is set when the stream ends
  before a newline and before the buffer is full. \<open>SCIPfseek\<close> back from the current
  position puts the last bytes read in front of the stream again and clears the indicator.
\<close>

fun fgets_split :: "nat \<Rightarrow> string \<Rightarrow> string \<times> string" where
  "fgets_split n [] = ([], [])"
| "fgets_split n (c # cs) =
     (if n = 0 then ([], c # cs)
      else if c = CHR 0x0A then ([c], cs)
      else (case fgets_split (n - 1) cs of (l, r) \<Rightarrow> (c # l, r)))"

definition SCIPfgets :: "nat \<Rightarrow> SCIP_FILE \<Rightarrow> string option \<times> SCIP_FILE" where
  "SCIPfgets sz f =
     (if unread f = [] then (None, f\<lparr>eof := True\<rparr>)
      else (case fgets_split (sz - 1) (unread f) of (l, r) \<Rightarrow>
        (Some l, \<lparr>unread = r,
                  eof = (eof f \<or> (length l < sz - 1 \<and> last l \<noteq> CHR 0x0A))\<rparr>)))"

definition SCIPfseek_back :: "string \<Rightarrow> SCIP_FILE \<Rightarrow> SCIP_FILE" where
  "SCIPfseek_back bytes f = \<lparr>unread = bytes @ unread f, eof = False\<rparr>"

definition SCIPfeof :: "SCIP_FILE option \<Rightarrow> bool fzn" where
  "SCIPfeof f = (case f of None \<Rightarrow> fault Undefined | Some g \<Rightarrow> ret (eof g))"

definition getNextLine :: "bool fzn" where
  "getNextLine =
     seq (upd (\<lambda>i. i\<lparr>linebuf := []\<rparr>))
    (seq (upd (\<lambda>i. if endline i then i\<lparr>linepos := 0, linenumber := linenumber i + 1\<rparr>
                    else i\<lparr>linepos := linepos i + int (FZN_BUFFERLEN - 2)\<rparr>))
    (bnd (bnd (gets infile) determinate) (\<lambda>f.
      case SCIPfgets FZN_BUFFERLEN f of
        (None, f') \<Rightarrow> seq (upd (\<lambda>i. i\<lparr>infile := Some f'\<rparr>)) (ret False)
      | (Some bytes, f') \<Rightarrow>
          seq (upd (\<lambda>i. i\<lparr>infile := Some f', bufpos := 0\<rparr>))
         (seq (if FZN_BUFFERLEN - 2 < length bytes \<and> bytes ! (FZN_BUFFERLEN - 2) \<noteq> NUL then
                 seq (upd (\<lambda>i. i\<lparr>endline := False\<rparr>))
                  (case strrchr (cstring bytes) (CHR '' '') of
                     None \<Rightarrow>
                       seq (message (WarningMessage (''we read '' @ string_of_nat (FZN_BUFFERLEN - 2)
                              @ '' character from the file; these might indicates an corrupted input file!\<newline>'')))
                           (upd (\<lambda>i. i\<lparr>linebuf := cstring (take (FZN_BUFFERLEN - 2) bytes)\<rparr>))
                   | Some k \<Rightarrow>
                       upd (\<lambda>i. i\<lparr>infile := Some (SCIPfseek_back
                                     (drop (length bytes - (length (cstring bytes) - k)) bytes) f'),
                                  linebuf := take k (cstring bytes)\<rparr>))
               else upd (\<lambda>i. i\<lparr>endline := True, linebuf := cstring bytes\<rparr>))
         (seq (upd (\<lambda>i. i\<lparr>linebuf := takeWhile (\<lambda>c. c \<notin> set commentchars) (linebuf i)\<rparr>))
              (ret True))))))"

definition bufchar :: "FZNINPUT \<Rightarrow> nat \<Rightarrow> char" where
  "bufchar i k = (if k < length (linebuf i) then linebuf i ! k else NUL)"

text \<open>
  A loop of the source is a function of its fuel, and one pass through its body is a
  definition of its own that is given the rest of the loop as \<open>continue\<close>. Here: the
  loop of \<open>getNextToken\<close> that skips delimiters and fetches the next line.
\<close>

definition skipDelimiter :: "bool fzn \<Rightarrow> bool fzn" where
  "skipDelimiter continue =
     bnd (gets (\<lambda>i. bufchar i (bufpos i))) (\<lambda>c.
       if isDelimChar c then
         (if c = NUL then
            bnd getNextLine (\<lambda>ok. if \<not> ok then ret False else continue)
          else seq (upd (\<lambda>i. i\<lparr>bufpos := bufpos i + 1, linepos := linepos i + 1\<rparr>))
                   continue)
       else ret True)"

primrec skipDelimiters :: "nat \<Rightarrow> bool fzn" where
  "skipDelimiters 0 = fault OutOfFuel"
| "skipDelimiters (Suc n) = skipDelimiter (skipDelimiters n)"

definition nextchar :: "string \<Rightarrow> char" where
  "nextchar cs = (case cs of [] \<Rightarrow> NUL | d # _ \<Rightarrow> d)"

text \<open>
  The two loops of \<open>getNextToken\<close> that copy a token run over the rest of the line
  buffer, after its first character: a value token, and any other token.
\<close>

fun readValueToken :: "string \<Rightarrow> bool \<Rightarrow> FZNEXPTYPE \<Rightarrow> string \<times> bool" where
  "readValueToken [] hdot exptype = ([], hdot)"
| "readValueToken (c # cs) hdot exptype =
     (case isValueChar c (nextchar cs) False hdot exptype of
        (True, hdot', exptype') \<Rightarrow>
          (case readValueToken cs hdot' exptype' of (t, h) \<Rightarrow> (c # t, h))
      | (False, hdot', exptype') \<Rightarrow> ([], hdot'))"

fun readNonValueToken :: "string \<Rightarrow> string" where
  "readNonValueToken [] = []"
| "readNonValueToken (c # cs) =
     (if \<not> isDelimChar c \<and> \<not> isTokenChar c then c # readNonValueToken cs else [])"

definition advance :: "nat \<Rightarrow> FZNINPUT \<Rightarrow> FZNINPUT" where
  "advance k i = i\<lparr>bufpos := bufpos i + k, linepos := linepos i + int k\<rparr>"

definition getNextToken :: "nat \<Rightarrow> bool fzn" where
  "getNextToken n =
     bnd (gets npushedtokens) (\<lambda>np.
       if 0 < np then
         seq (upd (\<lambda>i. i\<lparr>token := pushedtokens i, pushedtokens := token i,
                          npushedtokens := npushedtokens i - 1\<rparr>))
             (ret True)
       else
         bnd (skipDelimiters n) (\<lambda>found.
           if \<not> found then ret False
           else
             bnd (gets (\<lambda>i. drop (bufpos i) (linebuf i))) (\<lambda>buf.
               let c = nextchar buf; c1 = nextchar (tl buf) in
               seq (if c = CHR ''.'' \<and> c1 = CHR ''.'' then
                      upd (\<lambda>i. (advance 2 i)\<lparr>token := Some ''..''\<rparr>)
                    else
                      (case isValueChar c c1 True False FZN_EXP_NONE of
                         (True, hdot, exptype) \<Rightarrow>
                           (case readValueToken (tl buf) hdot exptype of (t, h) \<Rightarrow>
                              upd (\<lambda>i. (advance (length (c # t)) i)
                                          \<lparr>token := Some (c # t), hasdot := Some h\<rparr>))
                       | (False, hdot, exptype) \<Rightarrow>
                           (let t = (if c = CHR '':'' \<and> c1 = CHR '':'' then '':''
                                     else if isTokenChar c then []
                                     else readNonValueToken (tl buf))
                            in upd (\<lambda>i. (advance (length (c # t)) i)\<lparr>token := Some (c # t)\<rparr>))))
                   (ret True))))"

definition pushToken :: "unit fzn" where
  "pushToken =
     bnd (gets npushedtokens) (\<lambda>np.
       if np < 1 then
         upd (\<lambda>i. i\<lparr>token := pushedtokens i, pushedtokens := token i,
                     npushedtokens := npushedtokens i + 1\<rparr>)
       else fault Undefined)"

definition curtoken :: "string fzn" where
  "curtoken = bnd (gets token) determinate"

definition isEndStatment :: "bool fzn" where
  "isEndStatment = bnd curtoken (\<lambda>tok. ret (isChar tok (CHR '';'')))"


subsection \<open>The solver interface and the C library\<close>

text \<open>
  Modelled from the spec: the calls into the solver. \<open>SCIPcreateProb\<close> installs an
  empty problem with the given name, \<open>SCIPfreeProb\<close> removes the problem, and a call
  that needs a problem fails with \<open>SCIP_INVALIDCALL\<close> when there is none.
  \<open>SCIPinfinity\<close> is the default value of the solver's infinity.
\<close>

definition modify_scip :: "(SCIP \<Rightarrow> SCIP) \<Rightarrow> unit fzn" where
  "modify_scip f = (\<lambda>s. Inr ((), s\<lparr>scip := f (scip s)\<rparr>))"

definition get_prob :: "SCIP_PROB fzn" where
  "get_prob = (\<lambda>s. case origprob (scip s) of
                      None \<Rightarrow> Inl (Error SCIP_INVALIDCALL)
                    | Some p \<Rightarrow> Inr (p, s))"

definition set_prob :: "SCIP_PROB \<Rightarrow> unit fzn" where
  "set_prob p = modify_scip (\<lambda>sc. sc\<lparr>origprob := Some p\<rparr>)"

definition emptyProb :: "string \<Rightarrow> SCIP_PROB" where
  "emptyProb nm = \<lparr>prob_name = nm, prob_vars = [], prob_conss = [],
                   prob_objsense = SCIP_OBJSENSE_MINIMIZE\<rparr>"

definition SCIPcreateProb :: "string \<Rightarrow> unit fzn" where
  "SCIPcreateProb nm = set_prob (emptyProb nm)"

definition SCIPfreeProb :: "unit fzn" where
  "SCIPfreeProb = modify_scip (\<lambda>sc. sc\<lparr>origprob := None\<rparr>)"

definition SCIPaddVar :: "SCIP_VAR \<Rightarrow> nat fzn" where
  "SCIPaddVar v =
     bnd get_prob (\<lambda>p.
     seq (set_prob (p\<lparr>prob_vars := prob_vars p @ [v]\<rparr>))
         (ret (length (prob_vars p))))"

definition SCIPaddCons :: "SCIP_CONS \<Rightarrow> unit fzn" where
  "SCIPaddCons c = bnd get_prob (\<lambda>p. set_prob (p\<lparr>prob_conss := prob_conss p @ [c]\<rparr>))"

definition SCIPchgVarObj :: "nat \<Rightarrow> SCIP_Real \<Rightarrow> unit fzn" where
  "SCIPchgVarObj var newobj =
     bnd get_prob (\<lambda>p.
       if var < length (prob_vars p)
       then set_prob (p\<lparr>prob_vars := (prob_vars p)[var := (prob_vars p ! var)\<lparr>var_obj := newobj\<rparr>]\<rparr>)
       else fault Undefined)"

definition SCIPvarGetType :: "nat \<Rightarrow> SCIP_VARTYPE fzn" where
  "SCIPvarGetType var =
     bnd get_prob (\<lambda>p.
       if var < length (prob_vars p) then ret (var_type (prob_vars p ! var))
       else fault Undefined)"

definition SCIPsetObjsense :: "SCIP_OBJSENSE \<Rightarrow> unit fzn" where
  "SCIPsetObjsense sense = bnd get_prob (\<lambda>p. set_prob (p\<lparr>prob_objsense := sense\<rparr>))"

definition SCIPinfinity :: SCIP_Real where
  "SCIPinfinity = 10 ^ 20"

definition SCIPisInfinity :: "SCIP_Real \<Rightarrow> bool" where
  "SCIPisInfinity v = (SCIPinfinity \<le> v)"

definition SCIPsnprintf :: "string \<Rightarrow> string" where
  "SCIPsnprintf s = take (FZN_BUFFERLEN - 1) s"

definition SCIPhashtableRetrieve :: "(string \<times> 'a) list \<Rightarrow> string \<Rightarrow> 'a option" where
  "SCIPhashtableRetrieve table k = map_of table k"

definition SCIPhashtableInsert :: "(string \<times> 'a) list \<Rightarrow> string \<Rightarrow> 'a \<Rightarrow> (string \<times> 'a) list" where
  "SCIPhashtableInsert table k v = (k, v) # table"

text \<open>
  \<open>strtod\<close> of the C library on decimal literals: optional white space and sign,
  digits with an optional fraction, and an optional exponent; it returns the value and the
  rest of the string that it did not convert. The forms \<open>inf\<close>, \<open>nan\<close> and
  hexadecimal literals are not values of this model.
\<close>

definition isspace :: "char \<Rightarrow> bool" where
  "isspace c = (c \<in> set delimchars)"

definition digit_val :: "char \<Rightarrow> nat" where
  "digit_val c = of_char c - 48"

definition digits_val :: "string \<Rightarrow> nat" where
  "digits_val ds = foldl (\<lambda>a c. 10 * a + digit_val c) 0 ds"

definition pow10 :: "int \<Rightarrow> real" where
  "pow10 e = (if 0 \<le> e then 10 ^ nat e else 1 / 10 ^ nat (- e))"

definition strtod_sign :: "string \<Rightarrow> bool \<times> string" where
  "strtod_sign s =
     (case s of
        [] \<Rightarrow> (False, s)
      | c # r \<Rightarrow> if c = CHR ''-'' then (True, r) else if c = CHR ''+'' then (False, r) else (False, s))"

definition strtod_exponent :: "string \<Rightarrow> int \<times> string" where
  "strtod_exponent s =
     (case s of
        [] \<Rightarrow> (0, s)
      | c # r \<Rightarrow>
          if c = CHR ''e'' \<or> c = CHR ''E'' then
            (case strtod_sign r of (neg, r') \<Rightarrow>
               if takeWhile isdigit r' = [] then (0, s)
               else ((if neg then - int (digits_val (takeWhile isdigit r'))
                      else int (digits_val (takeWhile isdigit r'))),
                     dropWhile isdigit r'))
          else (0, s))"

definition strtod :: "string \<Rightarrow> (SCIP_Real \<times> string) option" where
  "strtod nptr =
     (case strtod_sign (dropWhile isspace nptr) of (neg, s1) \<Rightarrow>
        let ip = takeWhile isdigit s1;
            s2 = dropWhile isdigit s1;
            hasfrac = (s2 \<noteq> [] \<and> hd s2 = CHR ''.'');
            fp = (if hasfrac then takeWhile isdigit (tl s2) else []);
            s3 = (if hasfrac then dropWhile isdigit (tl s2) else s2)
        in if ip = [] \<and> fp = [] then None
           else (case strtod_exponent s3 of (ex, endptr) \<Rightarrow>
             let m = real (digits_val (ip @ fp)) / 10 ^ length fp * pow10 ex
             in Some (if neg then - m else m, endptr)))"

definition isValue :: "string \<Rightarrow> SCIP_Real option" where
  "isValue tok = (case strtod tok of Some (v, []) \<Rightarrow> Some v | _ \<Rightarrow> None)"

text \<open>
  The conversion \<open>(int) x\<close> truncates towards zero and is undefined outside the range
  of \<open>int\<close>.
\<close>

definition real_to_int :: "SCIP_Real \<Rightarrow> int fzn" where
  "real_to_int r =
     (if - (2 ^ 31) - 1 < r \<and> r < 2 ^ 31
      then ret (if 0 \<le> r then \<lfloor>r\<rfloor> else \<lceil>r\<rceil>)
      else fault Undefined)"


subsection \<open>Parsing expressions\<close>

definition getNextToken_isChar :: "nat \<Rightarrow> char \<Rightarrow> bool fzn" where
  "getNextToken_isChar n c =
     bnd (getNextToken n) (\<lambda>ok.
       if \<not> ok then ret False else bnd curtoken (\<lambda>tok. ret (isChar tok c)))"

definition createLinearCons ::
  "string \<Rightarrow> nat \<Rightarrow> nat list \<Rightarrow> SCIP_Real list \<Rightarrow> SCIP_Real \<Rightarrow> SCIP_Real \<Rightarrow> unit fzn" where
  "createLinearCons nm nvars vars vals lhs rhs =
     (if nvars \<le> length vars \<and> nvars \<le> length vals
      then SCIPaddCons (ConsLinear nm (take nvars vars) (take nvars vals) lhs rhs)
      else fault Undefined)"

definition constant_value :: "string \<Rightarrow> SCIP_Real fzn" where
  "constant_value nm =
     bnd (gets constantHashtable) (\<lambda>table.
       case SCIPhashtableRetrieve table nm of
         None \<Rightarrow> fault Undefined
       | Some constant \<Rightarrow> ret (const_value constant))"

definition createLinking ::
  "string \<Rightarrow> string \<Rightarrow> string \<Rightarrow> SCIP_Real \<Rightarrow> SCIP_Real \<Rightarrow> unit fzn" where
  "createLinking consname name1 name2 lhs rhs =
     bnd (gets varHashtable) (\<lambda>vtable.
     bnd (case SCIPhashtableRetrieve vtable name1 of
            Some v \<Rightarrow> ret ([v], 1, 0)
          | None \<Rightarrow>
              (case isValue name1 of
                 Some v \<Rightarrow> ret ([], - 1, v)
               | None \<Rightarrow> bnd (constant_value name1) (\<lambda>v. ret ([], - 1, v))))
       (\<lambda>(vars1, sign, value1).
     bnd (case SCIPhashtableRetrieve vtable name2 of
            Some v \<Rightarrow> ret (vars1 @ [v], value1)
          | None \<Rightarrow>
              (case isValue name2 of
                 Some v \<Rightarrow> ret (vars1, v)
               | None \<Rightarrow> bnd (constant_value name2) (\<lambda>v. ret (vars1, v))))
       (\<lambda>(vars, val).
     if length vars = 2 then createLinearCons consname 2 vars [1, - 1] lhs rhs
     else
       createLinearCons consname 1 vars [1, - 1]
         (if \<not> SCIPisInfinity (- lhs) then lhs + sign * val else lhs)
         (if \<not> SCIPisInfinity rhs then rhs + sign * val else rhs))))"

definition parseArrayIndex :: "nat \<Rightarrow> int \<Rightarrow> int fzn" where
  "parseArrayIndex n idx =
     bnd (getNextToken n) (\<lambda>ok.
     bnd (if ok then isEndStatment else ret True) (\<lambda>stop.
       if stop then seq (syntaxError ''expecting array index expression'') (ret idx)
       else
         bnd curtoken (\<lambda>tok.
           if isIdentifier tok then bnd (constant_value tok) real_to_int
           else (case isValue tok of
                   Some v \<Rightarrow> real_to_int v
                 | None \<Rightarrow> seq (syntaxError ''expecting array index expression'') (ret idx)))))"

definition flattenAssignment :: "nat \<Rightarrow> string option fzn" where
  "flattenAssignment n =
     bnd (getNextToken n) (\<lambda>ok.
     bnd (if ok then isEndStatment else ret True) (\<lambda>stop.
       if stop then seq (syntaxError ''expecting more tokens'') (ret None)
       else
         bnd curtoken (\<lambda>tok.
           if isIdentifier tok then
             (let nm = SCIPsnprintf tok in
              bnd (getNextToken n) (\<lambda>ok.
                if \<not> ok then
                  seq (syntaxError ''expecting at least a semicolon to close the statement'')
                      (ret None)
                else
                  bnd curtoken (\<lambda>tok.
                    if isChar tok (CHR ''['') then
                      bnd (parseArrayIndex n (- 1)) (\<lambda>idx.
                      bnd (getNextToken_isChar n (CHR '']'')) (\<lambda>closed.
                        if \<not> closed then seq (syntaxError ''expecting token <]>'') (ret None)
                        else ret (Some (SCIPsnprintf (nm @ ''['' @ string_of_int idx @ '']'')))))
                    else seq pushToken (ret (Some (SCIPsnprintf nm))))))
           else ret (Some (SCIPsnprintf tok)))))"

definition computeLinearConsSides ::
  "string \<Rightarrow> SCIP_Real \<Rightarrow> (SCIP_Real \<times> SCIP_Real) option fzn" where
  "computeLinearConsSides nm sidevalue =
     (if equalTokens nm ''eq'' then ret (Some (sidevalue, sidevalue))
      else if equalTokens nm ''ge'' then ret (Some (sidevalue, SCIPinfinity))
      else if equalTokens nm ''le'' then ret (Some (- SCIPinfinity, sidevalue))
      else if equalTokens nm ''gt'' then ret (Some (sidevalue + 1, SCIPinfinity))
      else if equalTokens nm ''lt'' then ret (Some (- SCIPinfinity, sidevalue - 1))
      else seq (syntaxError ''unknown relation in constraint identifier name'') (ret None))"

definition parseListElement ::
  "nat \<Rightarrow> (string list \<Rightarrow> string list fzn) \<Rightarrow> string list \<Rightarrow> string list fzn" where
  "parseListElement n continue elements =
     bnd (flattenAssignment n) (\<lambda>assignment.
     bnd (gets hasError) (\<lambda>err.
       if err then ret elements
       else
         bnd (determinate assignment) (\<lambda>a.
         bnd (getNextToken_isChar n (CHR '','')) (\<lambda>more.
           if more then continue (elements @ [a]) else ret (elements @ [a])))))"

primrec parseListElements :: "nat \<Rightarrow> nat \<Rightarrow> string list \<Rightarrow> string list fzn" where
  "parseListElements n 0 = (\<lambda>elements. fault OutOfFuel)"
| "parseListElements n (Suc k) = parseListElement n (parseListElements n k)"

definition parseList :: "nat \<Rightarrow> string list \<Rightarrow> string list fzn" where
  "parseList n elements =
     bnd (getNextToken n) (\<lambda>ok.
     bnd (if ok then bnd curtoken (\<lambda>tok. ret (\<not> isChar tok (CHR '']''))) else ret False)
       (\<lambda>nonempty.
     bnd (if nonempty then seq pushToken (parseListElements n n elements) else ret elements)
       (\<lambda>elements'.
     seq pushToken (ret elements'))))"

definition element :: "'a list \<Rightarrow> nat \<Rightarrow> 'a fzn" where
  "element xs k = (if k < length xs then ret (xs ! k) else fault Undefined)"

definition parseLinking :: "nat \<Rightarrow> string \<Rightarrow> string \<Rightarrow> SCIP_Real \<Rightarrow> unit fzn" where
  "parseLinking n nm type sidevalue =
     bnd (parseList n []) (\<lambda>names.
     bnd (gets hasError) (\<lambda>err.
       if err then ret ()
       else
         bnd (computeLinearConsSides type sidevalue) (\<lambda>sides.
         bnd (gets hasError) (\<lambda>err.
           if err then ret ()
           else
             bnd (determinate sides) (\<lambda>(lhs, rhs).
             bnd (element names 0) (\<lambda>name1.
             bnd (element names 1) (\<lambda>name2.
               createLinking nm name1 name2 lhs rhs)))))))"

definition skipToAssignment :: "nat \<Rightarrow> unit fzn \<Rightarrow> unit fzn" where
  "skipToAssignment n continue =
     bnd (getNextToken n) (\<lambda>ok.
       if \<not> ok then syntaxError ''expected at least a semicolon to close statement''
       else
         bnd isEndStatment (\<lambda>fin.
           if fin then pushToken
           else bnd curtoken (\<lambda>tok. if \<not> isChar tok (CHR ''='') then continue else pushToken)))"

primrec skipToAssignments :: "nat \<Rightarrow> nat \<Rightarrow> unit fzn" where
  "skipToAssignments n 0 = fault OutOfFuel"
| "skipToAssignments n (Suc k) = skipToAssignment n (skipToAssignments n k)"

definition parseName :: "nat \<Rightarrow> string option fzn" where
  "parseName n =
     bnd (getNextToken_isChar n (CHR '':'')) (\<lambda>colon.
       if \<not> colon then seq (syntaxError ''expecting colon <:>'') (ret None)
       else
         bnd (getNextToken n) (\<lambda>ok.
         bnd (if ok then bnd curtoken (\<lambda>tok. ret (isIdentifier tok)) else ret False) (\<lambda>ident.
           if \<not> ident then seq (syntaxError ''expecting identifier name'') (ret None)
           else
             bnd curtoken (\<lambda>tok.
             seq (skipToAssignments n n) (ret (Some (take (FZN_BUFFERLEN - 1) tok)))))))"

type_synonym range = "FZNNUMBERTYPE option \<times> SCIP_Real option \<times> SCIP_Real option"

definition parseRange :: "nat \<Rightarrow> range \<Rightarrow> range fzn" where
  "parseRange n r =
     (case r of (type, lb, ub) \<Rightarrow>
     bnd (getNextToken n) (\<lambda>ok.
       if \<not> ok then seq (syntaxError ''expected left side of range'') (ret (type, lb, ub))
       else
         bnd curtoken (\<lambda>tok.
         bnd (case isValue tok of
                Some v \<Rightarrow> ret (Some v)
              | None \<Rightarrow> seq (syntaxError ''expected lower bound value'') (ret lb)) (\<lambda>lb'.
         bnd (bnd (gets hasdot) determinate) (\<lambda>dot.
         let type' = (if dot then FZN_FLOAT else FZN_INT) in
         bnd (getNextToken n) (\<lambda>ok.
         bnd (if ok then bnd curtoken (\<lambda>tok. ret (equalTokens tok ''..'')) else ret False) (\<lambda>dots.
           if \<not> dots then seq (syntaxError ''expected <..>'') (ret (Some type', lb', ub))
           else
             bnd (getNextToken n) (\<lambda>ok.
             bnd (if ok then bnd curtoken (\<lambda>tok. ret (isValue tok)) else ret None) (\<lambda>upper.
               case upper of
                 None \<Rightarrow> seq (syntaxError ''expected upper bound value'') (ret (Some type', lb', ub))
               | Some v \<Rightarrow>
                   bnd (bnd (gets hasdot) determinate) (\<lambda>dot'.
                   seq (if dot' \<noteq> (type' = FZN_FLOAT) then
                          message (WarningMessage
                            (''lower bound and upper bound dismatch in vlaue type, assume ''
                             @ (if dot' then ''an integer'' else ''a continuous'')
                             @ '' variable type\<newline>''))
                        else ret ())
                       (ret (Some type', lb', Some v))))))))))))"

definition parseType :: "nat \<Rightarrow> range \<Rightarrow> range fzn" where
  "parseType n r =
     (case r of (type, lb, ub) \<Rightarrow>
     bnd (getNextToken n) (\<lambda>ok.
     bnd (if ok then isEndStatment else ret True) (\<lambda>stop.
       if stop then seq (syntaxError ''missing token'') (ret (type, lb, ub))
       else
         bnd curtoken (\<lambda>tok.
           if equalTokens tok ''bool'' then ret (Some FZN_BOOL, Some 0, Some 1)
           else if equalTokens tok ''float'' then
             ret (Some FZN_FLOAT, Some (- SCIPinfinity), Some SCIPinfinity)
           else if equalTokens tok ''int'' then
             ret (Some FZN_INT, Some (- SCIPinfinity), Some SCIPinfinity)
           else if equalTokens tok ''set'' \<or> isChar tok (CHR ''{'') then
             seq (message (WarningMessage ''sets are not supported yet\<newline>''))
            (seq (upd (\<lambda>i. i\<lparr>valid := False\<rparr>))
                 (ret (type, Some (- SCIPinfinity), Some SCIPinfinity)))
           else
             seq pushToken (parseRange n (type, Some (- SCIPinfinity), Some SCIPinfinity))))))"


subsection \<open>Variables, constants and arrays\<close>

definition applyVariableAssignment :: "nat \<Rightarrow> string option \<Rightarrow> unit fzn" where
  "applyVariableAssignment var assignment' =
     bnd (determinate assignment') (\<lambda>assignment.
     bnd (gets varHashtable) (\<lambda>vtable.
     bnd (gets constantHashtable) (\<lambda>ctable.
       case SCIPhashtableRetrieve vtable assignment of
         None \<Rightarrow>
           bnd (SCIPvarGetType var) (\<lambda>vartype.
             if fst (isBoolExp assignment) \<and> vartype = SCIP_VARTYPE_BINARY then
               bnd (determinate (snd (isBoolExp assignment))) (\<lambda>boolvalue.
                 createLinearCons ''fixing'' 1 [var] [1, - 1]
                   (if boolvalue then 1 else 0) (if boolvalue then 1 else 0))
             else if isValue assignment \<noteq> None \<and> vartype \<noteq> SCIP_VARTYPE_BINARY then
               bnd (determinate (isValue assignment)) (\<lambda>realvalue.
                 createLinearCons ''fixing'' 1 [var] [1, - 1] realvalue realvalue)
             else
               (case SCIPhashtableRetrieve ctable assignment of
                  Some constant \<Rightarrow>
                    createLinearCons ''fixing'' 1 [var] [1, - 1]
                      (const_value constant) (const_value constant)
                | None \<Rightarrow> syntaxError ''assignment is not recognizable''))
       | Some linkVar \<Rightarrow> createLinearCons ''link'' 2 [var, linkVar] [1, - 1] 0 0)))"

definition storeConstant :: "FZNCONSTANT \<Rightarrow> unit fzn" where
  "storeConstant constant =
     seq (upd (\<lambda>i. if sconstants i = nconstants i then i\<lparr>sconstants := sconstants i * 2\<rparr> else i))
    (seq (upd (\<lambda>i. i\<lparr>constants := constants i @ [constant], nconstants := nconstants i + 1\<rparr>))
         (upd (\<lambda>i. i\<lparr>constantHashtable :=
                        SCIPhashtableInsert (constantHashtable i) (const_name constant) constant\<rparr>)))"

definition applyConstantAssignment ::
  "string \<Rightarrow> FZNNUMBERTYPE option \<Rightarrow> string option \<Rightarrow> unit fzn" where
  "applyConstantAssignment nm type' assignment' =
     bnd (determinate assignment') (\<lambda>assignment.
     bnd (gets constantHashtable) (\<lambda>ctable.
     bnd (determinate type') (\<lambda>type.
     bnd (case SCIPhashtableRetrieve ctable assignment of
            Some constant \<Rightarrow>
              if type \<noteq> const_type constant then seq (syntaxError ''type error'') (ret None)
              else ret (Some (const_value constant))
          | None \<Rightarrow>
              if fst (isBoolExp assignment) \<and> type = FZN_BOOL then
                bnd (determinate (snd (isBoolExp assignment))) (\<lambda>boolvalue.
                  ret (Some (if boolvalue then 1 else 0)))
              else if isValue assignment \<noteq> None \<and> type \<noteq> FZN_BOOL then ret (isValue assignment)
              else seq (syntaxError ''assignment is not recognizable'') (ret None))
       (\<lambda>v. case v of
          None \<Rightarrow> ret ()
        | Some val \<Rightarrow>
            storeConstant \<lparr>const_name = nm, const_type = type, const_value = val\<rparr>))))"

definition parseArrayType ::
  "nat \<Rightarrow> bool \<Rightarrow> range \<Rightarrow> (bool \<times> range) fzn" where
  "parseArrayType n isvararray r =
     bnd (getNextToken n) (\<lambda>ok.
     bnd (if ok then bnd curtoken (\<lambda>tok. ret (equalTokens tok ''of'')) else ret False) (\<lambda>kw.
       if \<not> kw then seq (syntaxError ''expected keyword  <of>'') (ret (isvararray, r))
       else
         bnd (getNextToken n) (\<lambda>ok.
           if \<not> ok then seq (syntaxError ''expected more tokens'') (ret (isvararray, r))
           else
             bnd curtoken (\<lambda>tok.
               if equalTokens tok ''var'' then
                 bnd (parseType n r) (\<lambda>r'. ret (True, r'))
               else
                 seq pushToken (bnd (parseType n r) (\<lambda>r'. ret (False, r')))))))"

definition parseArrayAssignment :: "nat \<Rightarrow> string list \<Rightarrow> string list fzn" where
  "parseArrayAssignment n elements =
     bnd (getNextToken_isChar n (CHR ''['')) (\<lambda>opened.
       if \<not> opened then seq (syntaxError ''expected token <[>'') (ret elements)
       else
         bnd (parseList n elements) (\<lambda>elements'.
         bnd (gets hasError) (\<lambda>err.
           if err then ret elements'
           else
             bnd (getNextToken_isChar n (CHR '']'')) (\<lambda>closed.
               if \<not> closed then seq (syntaxError ''expected token <]>'') (ret elements')
               else ret elements'))))"

definition parseArrayDimension :: "nat \<Rightarrow> int option \<Rightarrow> int option fzn" where
  "parseArrayDimension n nelements =
     bnd (getNextToken_isChar n (CHR ''['')) (\<lambda>opened.
       if \<not> opened then
         seq (syntaxError ''expected token <[> for array dimension'') (ret nelements)
       else
         bnd (parseRange n (None, None, None)) (\<lambda>(type', left', right').
         bnd (determinate type') (\<lambda>type.
         bnd (if type \<noteq> FZN_INT then ret True
              else bnd (determinate left') (\<lambda>left.
                if left \<noteq> 1 then ret True
                else bnd (determinate right') (\<lambda>right. ret (right \<le> 0)))) (\<lambda>invalid.
           if invalid then seq (syntaxError ''invalid array dimension format'') (ret nelements)
           else
             bnd (determinate right') (\<lambda>right.
             bnd (real_to_int right) (\<lambda>size.
             bnd (getNextToken_isChar n (CHR '']'')) (\<lambda>closed.
               seq (if \<not> closed then syntaxError ''expected token <]> for array dimension''
                    else ret ())
                   (ret (Some size)))))))))"

definition createVariable ::
  "string \<Rightarrow> SCIP_Real \<Rightarrow> SCIP_Real \<Rightarrow> FZNNUMBERTYPE \<Rightarrow> nat fzn" where
  "createVariable nm lb ub type =
     (let vartype = (case type of
                       FZN_BOOL \<Rightarrow> SCIP_VARTYPE_BINARY
                     | FZN_INT \<Rightarrow> SCIP_VARTYPE_INTEGER
                     | FZN_FLOAT \<Rightarrow> SCIP_VARTYPE_CONTINUOUS)
      in bnd (SCIPaddVar \<lparr>var_name = nm, var_lb = lb, var_ub = ub, var_obj = 0,
                          var_type = vartype\<rparr>) (\<lambda>varcopy.
         seq (upd (\<lambda>i. i\<lparr>varHashtable := SCIPhashtableInsert (varHashtable i) nm varcopy\<rparr>))
             (ret varcopy)))"

fun createVariables ::
  "string \<Rightarrow> nat list \<Rightarrow> FZNNUMBERTYPE \<Rightarrow> SCIP_Real \<Rightarrow> SCIP_Real \<Rightarrow> nat list \<Rightarrow> nat list fzn" where
  "createVariables nm [] type lb ub vars = ret vars"
| "createVariables nm (v # vs) type lb ub vars =
     bnd (createVariable (SCIPsnprintf (nm @ ''['' @ string_of_int (int v + 1) @ '']'')) lb ub type)
       (\<lambda>var. createVariables nm vs type lb ub (vars @ [var]))"

fun applyVariableAssignments :: "nat list \<Rightarrow> string list \<Rightarrow> nat \<Rightarrow> unit fzn" where
  "applyVariableAssignments [] assigns v = ret ()"
| "applyVariableAssignments (var # vars) assigns v =
     bnd (gets hasError) (\<lambda>err.
       if err then ret ()
       else
         bnd (element assigns v) (\<lambda>a.
         seq (applyVariableAssignment var (Some a))
             (applyVariableAssignments vars assigns (v + 1))))"

definition parseVariableArray ::
  "nat \<Rightarrow> string \<Rightarrow> int \<Rightarrow> FZNNUMBERTYPE \<Rightarrow> SCIP_Real \<Rightarrow> SCIP_Real \<Rightarrow> unit fzn" where
  "parseVariableArray n nm nvars type lb ub =
     bnd (createVariables nm [0..<nat nvars] type lb ub []) (\<lambda>vars.
     bnd (getNextToken n) (\<lambda>ok.
       if \<not> ok then syntaxError ''expected semicolon''
       else
         bnd curtoken (\<lambda>tok.
           if isChar tok (CHR ''='') then
             bnd (parseArrayAssignment n []) (\<lambda>assigns.
             bnd (gets hasError) (\<lambda>err.
               if \<not> err then applyVariableAssignments vars assigns 0 else ret ()))
           else pushToken)))"

fun applyConstantAssignments ::
  "string \<Rightarrow> nat list \<Rightarrow> FZNNUMBERTYPE \<Rightarrow> string list \<Rightarrow> unit fzn" where
  "applyConstantAssignments nm [] type assigns = ret ()"
| "applyConstantAssignments nm (c # cs) type assigns =
     bnd (element assigns c) (\<lambda>a.
     seq (applyConstantAssignment (SCIPsnprintf (nm @ ''['' @ string_of_int (int c + 1) @ '']''))
            (Some type) (Some a))
         (applyConstantAssignments nm cs type assigns))"

definition parseConstantArray :: "nat \<Rightarrow> string \<Rightarrow> int \<Rightarrow> FZNNUMBERTYPE \<Rightarrow> unit fzn" where
  "parseConstantArray n nm nconsts type =
     bnd (getNextToken_isChar n (CHR ''='')) (\<lambda>eq.
       if \<not> eq then syntaxError ''expected token <=>''
       else
         bnd (parseArrayAssignment n []) (\<lambda>assigns.
         bnd (gets hasError) (\<lambda>err.
           if \<not> err then applyConstantAssignments nm [0..<nat nconsts] type assigns
           else ret ())))"

definition parseArray :: "nat \<Rightarrow> unit fzn" where
  "parseArray n =
     bnd (parseArrayDimension n None) (\<lambda>nelements'.
     bnd (gets hasError) (\<lambda>err.
       if err then ret ()
       else
         bnd (parseArrayType n False (None, None, None)) (\<lambda>(isvararray, type', lb', ub').
         bnd (gets hasError) (\<lambda>err.
           if err then ret ()
           else
             bnd (parseName n) (\<lambda>name'.
             bnd (gets hasError) (\<lambda>err.
               if err then ret ()
               else
                 bnd (determinate name') (\<lambda>nm.
                 bnd (determinate nelements') (\<lambda>nelements.
                 bnd (determinate type') (\<lambda>type.
                   if isvararray then
                     bnd (determinate lb') (\<lambda>lb.
                     bnd (determinate ub') (\<lambda>ub.
                       parseVariableArray n nm nelements type lb ub))
                   else parseConstantArray n nm nelements type)))))))))"

definition parseVariable :: "nat \<Rightarrow> unit fzn" where
  "parseVariable n =
     bnd (parseType n (None, None, None)) (\<lambda>(type', lb', ub').
     bnd (gets hasError) (\<lambda>err.
       if err then ret ()
       else
         bnd (parseName n) (\<lambda>name'.
         bnd (gets hasError) (\<lambda>err.
           if err then ret ()
           else
             bnd (determinate name') (\<lambda>nm.
             bnd (determinate lb') (\<lambda>lb.
             bnd (determinate ub') (\<lambda>ub.
             bnd (determinate type') (\<lambda>type.
             bnd (createVariable nm lb ub type) (\<lambda>var.
             bnd (getNextToken n) (\<lambda>ok.
               if \<not> ok then syntaxError ''expected semicolon''
               else
                 bnd curtoken (\<lambda>tok.
                   if isChar tok (CHR ''='') then
                     bnd (flattenAssignment n) (\<lambda>assignment.
                       applyVariableAssignment var assignment)
                   else pushToken)))))))))))"

definition parseConstant :: "nat \<Rightarrow> FZNNUMBERTYPE option \<Rightarrow> unit fzn" where
  "parseConstant n type =
     bnd (parseName n) (\<lambda>name'.
     bnd (gets hasError) (\<lambda>err.
       if err then ret ()
       else
         bnd (getNextToken_isChar n (CHR ''='')) (\<lambda>eq.
           if \<not> eq then syntaxError ''expected token <=>''
           else
             bnd (flattenAssignment n) (\<lambda>assignment.
             bnd (determinate name') (\<lambda>nm.
               applyConstantAssignment nm type assignment)))))"


definition parseValue :: "SCIP_Real option \<Rightarrow> string \<Rightarrow> SCIP_Real option fzn" where
  "parseValue val assignment =
     (case isValue assignment of
        Some v \<Rightarrow> ret (Some v)
      | None \<Rightarrow>
          if isIdentifier assignment then bnd (constant_value assignment) (\<lambda>v. ret (Some v))
          else seq (syntaxError ''expected constant expression'') (ret val))"

fun parseValues ::
  "string list \<Rightarrow> SCIP_Real option \<Rightarrow> SCIP_Real option list \<Rightarrow> SCIP_Real option list fzn" where
  "parseValues [] val vals = ret vals"
| "parseValues (e # es) val vals =
     bnd (gets hasError) (\<lambda>err.
       if err then ret vals
       else bnd (parseValue val e) (\<lambda>val'. parseValues es val' (vals @ [val'])))"

definition parseConstantArrayAssignment ::
  "nat \<Rightarrow> SCIP_Real option list \<Rightarrow> SCIP_Real option list fzn" where
  "parseConstantArrayAssignment n vals =
     bnd (parseArrayAssignment n []) (\<lambda>elements. parseValues elements (Some 0) vals)"

definition syntaxErrorAt :: "string \<Rightarrow> string \<Rightarrow> unit fzn" where
  "syntaxErrorAt tok msg =
     bnd (gets token) (\<lambda>tmptoken.
     seq (upd (\<lambda>i. i\<lparr>token := Some tok\<rparr>))
    (seq (syntaxError msg)
         (upd (\<lambda>i. i\<lparr>token := tmptoken\<rparr>))))"

fun retrieveVariables :: "string list \<Rightarrow> nat list \<Rightarrow> nat list fzn" where
  "retrieveVariables [] vars = ret vars"
| "retrieveVariables (e # es) vars =
     bnd (gets varHashtable) (\<lambda>vtable.
     bnd (gets constantHashtable) (\<lambda>ctable.
       case SCIPhashtableRetrieve vtable e of
         Some var \<Rightarrow> retrieveVariables es (vars @ [var])
       | None \<Rightarrow>
           (case SCIPhashtableRetrieve ctable e of
              Some constant \<Rightarrow>
                bnd (createVariable e (const_value constant) (const_value constant) FZN_FLOAT)
                  (\<lambda>var. retrieveVariables es (vars @ [var]))
            | None \<Rightarrow>
                (case isValue e of
                   None \<Rightarrow>
                     seq (syntaxErrorAt e ''expected variable name or constant'') (ret vars)
                 | Some v \<Rightarrow>
                     bnd (createVariable e v v FZN_FLOAT)
                       (\<lambda>var. retrieveVariables es (vars @ [var]))))))"

definition parseVariableArrayAssignment :: "nat \<Rightarrow> nat list \<Rightarrow> nat list fzn" where
  "parseVariableArrayAssignment n vars =
     bnd (parseArrayAssignment n []) (\<lambda>elements. retrieveVariables elements vars)"

subsection \<open>Constraints\<close>

definition those_vals :: "SCIP_Real option list \<Rightarrow> SCIP_Real list fzn" where
  "those_vals vals = determinate (those vals)"

definition createCoercionOpCons :: "nat \<Rightarrow> string \<Rightarrow> string list \<Rightarrow> bool \<Rightarrow> bool fzn" where
  "createCoercionOpCons n fname ftokens created =
     (if \<not> equalTokens fname ''int2float'' \<and> \<not> equalTokens fname ''bool2int'' then ret created
      else seq (parseLinking n fname ''eq'' 0) (ret True))"

definition createSetOpCons :: "nat \<Rightarrow> string \<Rightarrow> string list \<Rightarrow> bool \<Rightarrow> bool fzn" where
  "createSetOpCons n fname ftokens created =
     bnd (element ftokens 0) (\<lambda>t0.
       if \<not> equalTokens t0 ''set'' then ret created
       else
         seq (upd (\<lambda>i. i\<lparr>valid := False\<rparr>))
        (seq (message (WarningMessage ''set operation are not supported yet\<newline>''))
             (ret created)))"

definition createArrayOpCons :: "nat \<Rightarrow> string \<Rightarrow> string list \<Rightarrow> bool \<Rightarrow> bool fzn" where
  "createArrayOpCons n fname ftokens created =
     bnd (element ftokens 0) (\<lambda>t0.
       if \<not> equalTokens t0 ''array'' then ret created
       else
         seq (upd (\<lambda>i. i\<lparr>valid := False\<rparr>))
        (seq (message (WarningMessage ''array operation are not supported yet\<newline>''))
             (ret created)))"

fun retrieveVars3 :: "string list \<Rightarrow> nat list \<Rightarrow> nat list \<Rightarrow> nat list option fzn" where
  "retrieveVars3 elements [] vars = ret (Some vars)"
| "retrieveVars3 elements (v # vs) vars =
     bnd (element elements v) (\<lambda>e.
     bnd (gets varHashtable) (\<lambda>vtable.
       case SCIPhashtableRetrieve vtable e of
         None \<Rightarrow> seq (syntaxError ''unknown variable identifier name'') (ret None)
       | Some var \<Rightarrow> retrieveVars3 elements vs (vars @ [var])))"

definition createLogicalOpCons :: "nat \<Rightarrow> string \<Rightarrow> string list \<Rightarrow> bool \<Rightarrow> bool fzn" where
  "createLogicalOpCons n fname ftokens created =
     (if length ftokens < 2 then ret created
      else if equalTokens (ftokens ! 0) ''bool'' \<and> length ftokens = 2 then
        (if equalTokens (ftokens ! 1) ''eq'' then ret created
         else
           bnd (parseList n []) (\<lambda>elements.
           bnd (gets hasError) (\<lambda>err.
             if err then ret created
             else
               bnd (retrieveVars3 elements [0, 1, 2] []) (\<lambda>found.
                 case found of
                   None \<Rightarrow> ret created
                 | Some vars \<Rightarrow>
                     if equalTokens (ftokens ! 1) ''or'' then
                       seq (SCIPaddCons (ConsOr fname (vars ! 2) (take 2 vars))) (ret True)
                     else if equalTokens (ftokens ! 1) ''and'' then
                       seq (SCIPaddCons (ConsAnd fname (vars ! 2) (take 2 vars))) (ret True)
                     else if equalTokens (ftokens ! 1) ''xor'' then
                       seq (SCIPaddCons (ConsXor fname False [vars ! 2, vars ! 1, vars ! 0]))
                           (ret True)
                     else
                       seq (upd (\<lambda>i. i\<lparr>valid := False\<rparr>))
                      (seq (message (WarningMessage
                              (''logical operation <'' @ fname @ ''> is not supported yet\<newline>'')))
                           (ret created))))))
      else if equalTokens (ftokens ! 1) ''bool'' then
        seq (upd (\<lambda>i. i\<lparr>valid := False\<rparr>))
       (seq (message (WarningMessage
               (''logical operation <'' @ fname @ ''> is not supported yet\<newline>'')))
            (ret created))
      else ret created)"

definition expectComma :: "nat \<Rightarrow> bool fzn" where
  "expectComma n =
     bnd (gets hasError) (\<lambda>err.
       if err then ret False
       else
         bnd (getNextToken_isChar n (CHR '','')) (\<lambda>comma.
           if comma then ret True
           else
             bnd (gets hasError) (\<lambda>err.
             seq (if \<not> err then syntaxError ''expected token <,>'' else ret ())
                 (ret False))))"

definition createComparisonOpCons :: "nat \<Rightarrow> string \<Rightarrow> string list \<Rightarrow> bool \<Rightarrow> bool fzn" where
  "createComparisonOpCons n fname ftokens created =
     bnd (element ftokens (length ftokens - 1)) (\<lambda>lasttoken.
       if equalTokens lasttoken ''reif'' then
         seq (message (WarningMessage ''reified constraints are not supported\<newline>''))
        (seq (upd (\<lambda>i. i\<lparr>valid := False\<rparr>)) (ret created))
       else if length lasttoken \<noteq> 2 then ret created
       else if equalTokens (ftokens ! 0) ''set'' then
         seq (message (WarningMessage ''constraints using sets are not supported\<newline>''))
        (seq (upd (\<lambda>i. i\<lparr>valid := False\<rparr>)) (ret created))
       else if equalTokens lasttoken ''ne'' then
         seq (message (WarningMessage
                ''constraints with 'not equal' relation are not supported\<newline>''))
        (seq (upd (\<lambda>i. i\<lparr>valid := False\<rparr>)) (ret created))
       else if equalTokens (ftokens ! 0) ''float''
               \<and> (equalTokens lasttoken ''lt'' \<or> equalTokens lasttoken ''gt'') then
         seq (message (WarningMessage
                ''constraints with '<' or '>' relation and continuous variables are not supported\<newline>''))
        (seq (upd (\<lambda>i. i\<lparr>valid := False\<rparr>)) (ret created))
       else
         bnd (element ftokens 1) (\<lambda>t1.
           if equalTokens t1 ''lin'' then
             bnd (parseConstantArrayAssignment n []) (\<lambda>vals.
             bnd (expectComma n) (\<lambda>ok.
               if \<not> ok then ret True
               else
                 bnd (parseVariableArrayAssignment n []) (\<lambda>vars.
                 bnd (expectComma n) (\<lambda>ok.
                   if \<not> ok then ret True
                   else
                     bnd (flattenAssignment n) (\<lambda>assignment'.
                     bnd (determinate assignment') (\<lambda>assignment.
                     bnd (parseValue None assignment) (\<lambda>sidevalue'.
                     bnd (gets hasError) (\<lambda>err.
                       if err then ret True
                       else
                         bnd (determinate sidevalue') (\<lambda>sidevalue.
                         bnd (element ftokens 2) (\<lambda>t2.
                         bnd (computeLinearConsSides t2 sidevalue) (\<lambda>sides.
                         bnd (gets hasError) (\<lambda>err.
                           if err then ret True
                           else
                             bnd (determinate sides) (\<lambda>(lhs, rhs).
                             bnd (those_vals vals) (\<lambda>vs.
                             seq (createLinearCons fname (length vars) vars vs lhs rhs)
                                 (ret True)))))))))))))))
           else seq (parseLinking n fname t1 0) (ret True)))"


fun SCIPstrtok :: "string \<Rightarrow> char \<Rightarrow> string \<Rightarrow> string list" where
  "SCIPstrtok [] delim cur = (if cur = [] then [] else [cur])"
| "SCIPstrtok (c # cs) delim cur =
     (if c = delim then (if cur = [] then SCIPstrtok cs delim [] else cur # SCIPstrtok cs delim [])
      else SCIPstrtok cs delim (cur @ [c]))"

definition tryConstype ::
  "(bool \<Rightarrow> bool fzn) \<Rightarrow> bool \<Rightarrow> bool fzn" where
  "tryConstype constype created =
     bnd (gets hasError) (\<lambda>err. if \<not> created \<and> \<not> err then constype created else ret created)"

definition parseConstraint :: "nat \<Rightarrow> unit fzn" where
  "parseConstraint n =
     bnd (flattenAssignment n) (\<lambda>name'.
     bnd (determinate name') (\<lambda>nm.
     bnd (gets varHashtable) (\<lambda>vtable.
       case SCIPhashtableRetrieve vtable nm of
         Some var \<Rightarrow> createLinearCons ''fixing'' 1 [var] [1] 1 1
       | None \<Rightarrow>
           if \<not> isIdentifier nm then syntaxError ''expected constraint identifier name''
           else
             bnd (getNextToken_isChar n (CHR ''('')) (\<lambda>opened.
               if \<not> opened then syntaxError ''expected token <(>''
               else
                 (let fname = SCIPsnprintf nm;
                      tokens = take 4 (SCIPstrtok nm (CHR ''_'') [])
                  in
                  bnd (tryConstype (createCoercionOpCons n fname tokens) False) (\<lambda>created.
                  bnd (tryConstype (createSetOpCons n fname tokens) created) (\<lambda>created.
                  bnd (tryConstype (createLogicalOpCons n fname tokens) created) (\<lambda>created.
                  bnd (tryConstype (createArrayOpCons n fname tokens) created) (\<lambda>created.
                  bnd (tryConstype (createComparisonOpCons n fname tokens) created) (\<lambda>created.
                  bnd (gets hasError) (\<lambda>err.
                  seq (if \<not> err \<and> \<not> created then
                         seq (upd (\<lambda>i. i\<lparr>valid := False\<rparr>))
                             (message (WarningMessage
                                (''constraint <'' @ fname @ ''> is not supported yet\<newline>'')))
                       else ret ())
                  (bnd (gets hasError) (\<lambda>err.
                     if err then ret ()
                     else
                       bnd (getNextToken_isChar n (CHR '')'')) (\<lambda>closed.
                         if \<not> closed then syntaxError ''expected token <)>'' else ret ()))))))))))))))"

subsection \<open>The solve item\<close>

definition isSolveKeyword :: "string \<Rightarrow> bool" where
  "isSolveKeyword tok =
     (equalTokens tok ''satisfy'' \<or> equalTokens tok ''minimize'' \<or> equalTokens tok ''maximize'')"

definition skipSolveAnnotation :: "nat \<Rightarrow> unit fzn \<Rightarrow> unit fzn" where
  "skipSolveAnnotation n continue =
     bnd (getNextToken n) (\<lambda>ok.
     seq (if \<not> ok then syntaxError ''expected more tokens'' else ret ())
    (bnd curtoken (\<lambda>tok. if \<not> isSolveKeyword tok then continue else ret ())))"

primrec skipSolveAnnotations :: "nat \<Rightarrow> nat \<Rightarrow> unit fzn" where
  "skipSolveAnnotations n 0 = fault OutOfFuel"
| "skipSolveAnnotations n (Suc k) = skipSolveAnnotation n (skipSolveAnnotations n k)"

definition expectClose :: "nat \<Rightarrow> bool fzn" where
  "expectClose n =
     bnd (gets hasError) (\<lambda>err.
       if err then ret False
       else
         bnd (getNextToken_isChar n (CHR '')'')) (\<lambda>closed.
           if closed then ret True
           else
             bnd (gets hasError) (\<lambda>err.
             seq (if \<not> err then syntaxError ''expected token <)>'' else ret ())
                 (ret False))))"

fun chgVarObjs :: "nat list \<Rightarrow> SCIP_Real option list \<Rightarrow> nat \<Rightarrow> unit fzn" where
  "chgVarObjs [] vals v = ret ()"
| "chgVarObjs (var # vars) vals v =
     bnd (element vals v) (\<lambda>val'.
     bnd (determinate val') (\<lambda>val.
     seq (SCIPchgVarObj var val) (chgVarObjs vars vals (v + 1))))"

definition parseLinearObjective :: "nat \<Rightarrow> unit fzn" where
  "parseLinearObjective n =
     bnd (getNextToken_isChar n (CHR ''('')) (\<lambda>opened.
       if \<not> opened then syntaxError ''expected token <(>''
       else
         bnd (parseConstantArrayAssignment n []) (\<lambda>vals.
         bnd (expectComma n) (\<lambda>ok.
           if \<not> ok then ret ()
           else
             bnd (parseConstantArrayAssignment n vals) (\<lambda>vals.
             bnd (expectComma n) (\<lambda>ok.
               if \<not> ok then ret ()
               else
                 bnd (parseVariableArrayAssignment n []) (\<lambda>vars.
                 bnd (expectComma n) (\<lambda>ok.
                   if \<not> ok then ret ()
                   else
                     bnd (parseVariableArrayAssignment n vars) (\<lambda>vars.
                     bnd (expectClose n) (\<lambda>ok.
                       if \<not> ok then ret ()
                       else chgVarObjs vars vals 0)))))))))"

definition parseSolveItem :: "nat \<Rightarrow> unit fzn" where
  "parseSolveItem n =
     bnd (getNextToken n) (\<lambda>ok.
       if \<not> ok then syntaxError ''expected solving specification''
       else
         bnd curtoken (\<lambda>tok.
         seq (if equalTokens tok ''::'' then skipSolveAnnotations n n else ret ())
        (bnd curtoken (\<lambda>tok.
           if equalTokens tok ''satisfy'' then ret ()
           else
             seq (upd (\<lambda>i. i\<lparr>objsense := (if equalTokens tok ''minimize''
                                              then SCIP_OBJSENSE_MINIMIZE
                                              else SCIP_OBJSENSE_MAXIMIZE)\<rparr>))
            (bnd (flattenAssignment n) (\<lambda>name'.
             bnd (determinate name') (\<lambda>nm.
             bnd (gets varHashtable) (\<lambda>vtable.
             bnd (gets constantHashtable) (\<lambda>ctable.
               case SCIPhashtableRetrieve vtable nm of
                 Some var \<Rightarrow> SCIPchgVarObj var 1
               | None \<Rightarrow>
                   (case SCIPhashtableRetrieve ctable nm of
                      Some constant \<Rightarrow> ret ()
                    | None \<Rightarrow>
                        if equalTokens nm ''int_float_lin'' then parseLinearObjective n
                        else syntaxError
                          ''unknown identifier expresion for a objective function''))))))))))"


subsection \<open>Reading a model\<close>

definition SCIPfopen :: "string \<Rightarrow> SCIP_FILE option fzn" where
  "SCIPfopen filename =
     (\<lambda>s. case map_of (files s) filename of
            None \<Rightarrow> Inr (None, s)
          | Some txt \<Rightarrow> Inr (Some \<lparr>unread = txt, eof = False\<rparr>, s\<lparr>nopen := nopen s + 1\<rparr>))"

definition SCIPfclose :: "unit fzn" where
  "SCIPfclose = (\<lambda>s. Inr ((), s\<lparr>nopen := nopen s - 1\<rparr>))"

text \<open>
  What a statement leaves the loop of \<open>readFZNFile\<close> with: it goes on to the end of
  the statement, it breaks out of the loop, or it returns from \<open>readFZNFile\<close>.
\<close>

datatype control = Proceed | Break | Return SCIP_RETCODE

definition parseStatement :: "nat \<Rightarrow> string \<Rightarrow> control fzn" where
  "parseStatement n tok =
     (if equalTokens tok ''array'' then seq (parseArray n) (ret Proceed)
      else if equalTokens tok ''constraint'' then seq (parseConstraint n) (ret Proceed)
      else if equalTokens tok ''int'' then seq (parseConstant n (Some FZN_INT)) (ret Proceed)
      else if equalTokens tok ''float'' then seq (parseConstant n (Some FZN_FLOAT)) (ret Proceed)
      else if equalTokens tok ''bool'' then seq (parseConstant n (Some FZN_BOOL)) (ret Proceed)
      else if equalTokens tok ''set'' then
        seq (message (WarningMessage ''sets are not supported yet\<newline>''))
       (seq (upd (\<lambda>i. i\<lparr>valid := False\<rparr>)) (ret Break))
      else if equalTokens tok ''solve'' then seq (parseSolveItem n) (ret Proceed)
      else if equalTokens tok ''var'' then seq (parseVariable n) (ret Proceed)
      else if equalTokens tok ''output'' then ret Break
      else
        seq pushToken
       (bnd (parseRange n (None, None, None)) (\<lambda>(type, lb, ub).
        seq (parseConstant n type)
       (bnd (gets hasError) (\<lambda>err.
          if err then
            bnd curtoken (\<lambda>tok'.
            seq (message (WarningMessage (''unknown keyword <'' @ tok' @ ''> skip statment\<newline>'')))
                (ret (Return SCIP_OKAY)))
          else ret Proceed)))))"

definition skipAnnotation :: "nat \<Rightarrow> unit fzn \<Rightarrow> unit fzn" where
  "skipAnnotation n continue =
     bnd (getNextToken n) (\<lambda>ok.
     seq (if \<not> ok then syntaxError ''expected more tokens'' else ret ())
    (bnd isEndStatment (\<lambda>fin. if \<not> fin then continue else ret ())))"

primrec skipAnnotations :: "nat \<Rightarrow> nat \<Rightarrow> unit fzn" where
  "skipAnnotations n 0 = fault OutOfFuel"
| "skipAnnotations n (Suc k) = skipAnnotation n (skipAnnotations n k)"

definition closeStatement :: "nat \<Rightarrow> unit fzn" where
  "closeStatement n =
     bnd (getNextToken n) (\<lambda>ok.
     seq (if \<not> ok then syntaxError ''expected semicolon'' else ret ())
    (bnd curtoken (\<lambda>tok.
     seq (if equalTokens tok ''::'' then skipAnnotations n n else ret ())
    (bnd isEndStatment (\<lambda>fin.
       if \<not> fin then syntaxError ''expected semicolon'' else ret ())))))"

text \<open>
  One pass through the loop of \<open>readFZNFile\<close>; the result is the return code when
  the function returned from inside the loop, and \<open>None\<close> when the loop was left.
\<close>

definition readStatement ::
  "nat \<Rightarrow> SCIP_RETCODE option fzn \<Rightarrow> SCIP_RETCODE option fzn" where
  "readStatement n continue =
     bnd (bnd (gets infile) SCIPfeof) (\<lambda>ateof.
     bnd (gets hasError) (\<lambda>err.
       if ateof \<or> err then ret None
       else
         bnd (getNextToken n) (\<lambda>ok.
           if \<not> ok then continue
           else
             bnd curtoken (\<lambda>tok.
             bnd (parseStatement n tok) (\<lambda>ctl.
               case ctl of
                 Break \<Rightarrow> ret None
               | Return retcode \<Rightarrow> ret (Some retcode)
               | Proceed \<Rightarrow>
                   bnd (gets hasError) (\<lambda>err.
                     if err then ret None
                     else seq (closeStatement n) continue))))))"

primrec readStatements :: "nat \<Rightarrow> nat \<Rightarrow> SCIP_RETCODE option fzn" where
  "readStatements n 0 = fault OutOfFuel"
| "readStatements n (Suc k) = readStatement n (readStatements n k)"

text \<open>
  The part of \<open>readFZNFile\<close> after the loop.
\<close>

definition finishRead :: "string \<Rightarrow> SCIP_RETCODE fzn" where
  "finishRead filename =
     seq SCIPfclose
    (bnd (gets hasError) (\<lambda>err.
     seq (if err then seq SCIPfreeProb (SCIPcreateProb filename)
          else bnd (gets objsense) SCIPsetObjsense)
         (ret SCIP_OKAY)))"

definition readFZNFile :: "nat \<Rightarrow> string \<Rightarrow> SCIP_RETCODE fzn" where
  "readFZNFile n filename =
     bnd (SCIPfopen filename) (\<lambda>f.
     seq (upd (\<lambda>i. i\<lparr>infile := f\<rparr>))
       (case f of
          None \<Rightarrow>
            seq (message (ErrorMessage (''cannot open file <'' @ filename @ ''> for reading\<newline>'')))
           (seq (message (SysError filename))
                (ret SCIP_NOFILE))
        | Some _ \<Rightarrow>
            seq (SCIPcreateProb filename)
           (bnd (createVariable ''true'' 1 1 FZN_BOOL) (\<lambda>_.
            bnd (createVariable ''false'' 0 0 FZN_BOOL) (\<lambda>_.
            bnd (readStatements n n) (\<lambda>returned.
              case returned of
                Some retcode \<Rightarrow> ret retcode
              | None \<Rightarrow> finishRead filename))))))"

definition initFznInput :: FZNINPUT where
  "initFznInput =
     \<lparr>infile = None, varHashtable = [], constantHashtable = [], constants = [],
      linebuf = [], token = Some [], pushedtokens = None, npushedtokens = 0,
      linenumber = 1, linepos = 0, bufpos = 0, nconstants = 0, sconstants = 10,
      objsense = SCIP_OBJSENSE_MINIMIZE, hasdot = None, endline = False,
      haserror = False, valid = True\<rparr>"

definition readerReadFzn :: "nat \<Rightarrow> string \<Rightarrow> SCIP_RESULT \<Rightarrow> (SCIP_RETCODE \<times> SCIP_RESULT) fzn" where
  "readerReadFzn n filename result =
     seq (upd (\<lambda>_. initFznInput))
    (bnd (readFZNFile n filename) (\<lambda>retcode.
       if retcode \<noteq> SCIP_OKAY then ret (retcode, result)
       else
         bnd (gets haserror) (\<lambda>err.
           if err then ret (SCIP_PARSEERROR, result)
           else ret (SCIP_OKAY, SCIP_SUCCESS))))"

text \<open>
  A state to start a read from: a solver without a problem, no message so far, and one file.
\<close>

definition initial_state :: "string \<Rightarrow> string \<Rightarrow> state" where
  "initial_state filename txt =
     \<lparr>scip = \<lparr>origprob = None, messages = []\<rparr>, fzninput = initFznInput,
      files = [(filename, txt)], nopen = 0\<rparr>"



definition example_statement_state :: state where
  "example_statement_state =
     \<lparr>scip = \<lparr>origprob = Some (emptyProb ''m.fzn''), messages = []\<rparr>,
      fzninput = initFznInput\<lparr>infile := Some \<lparr>unread = ''var ;'', eof = False\<rparr>\<rparr>,
      files = [], nopen = 1\<rparr>"

section \<open>Expression nodes (struct\_cons\_expr.h) and their reference counts\<close>

text \<open>
  A node of the expression graph lives at an address; the address of a node is the
  number of nodes created before it, so it is also the creation index of the node.
\<close>

type_synonym exprptr = nat

text \<open>
  The variability of a node says which member of the union of children is in use. The
  header names the four values in a comment (in-, uni-, bi-, multivariate); the type
  itself is declared in type\_cons\_expr.h.
\<close>

datatype SCIP_CONSEXPR_VARIABILITY =
  SCIP_CONSEXPR_INVARIATE | SCIP_CONSEXPR_UNIVARIATE | SCIP_CONSEXPR_BIVARIATE
  | SCIP_CONSEXPR_MULTIVARIATE

text \<open>
  \<open>union SCIP_ConsExpr_Children\<close>: one child, two children, or an array of
  \<open>childrensize\<close> pointers of which the first \<open>nchildren\<close> are the children.
\<close>

datatype SCIP_ConsExpr_Children =
  single exprptr
  | pair exprptr exprptr
  | array nat nat "exprptr list"

text \<open>
  Modelled from the spec: the data of an expression is opaque in the header. The data
  kept here is what the operators of the specification need: the constant and the
  coefficients of a sum, the exponent of a power, the variable of a variable expression
  and the value of a constant.
\<close>

datatype SCIP_CONSEXPR_EXPRDATA =
  SumData real "real list"
  | PowData real
  | VarData nat
  | ValueData real

text \<open>
  \<open>struct SCIP_ConsExpr_Expr\<close>, the members in the order of the header. The handler
  is not owned by the node and never changes, so the node holds the handler record
  itself; the data can be NULL.
\<close>

record SCIP_ConsExpr_Expr =
  exprhdlr :: SCIP_ConsExpr_ExprHdlr
  exprdata :: "SCIP_CONSEXPR_EXPRDATA option"
  variability :: SCIP_CONSEXPR_VARIABILITY
  children :: SCIP_ConsExpr_Children
  nuses :: int

text \<open>
  The children of a node, read from the union as the variability says. Reading a member
  of the union that is not the one in use has no defined result (\<open>None\<close>), and neither
  has an array that claims more children than it has room for.
\<close>

definition expr_children :: "SCIP_ConsExpr_Expr \<Rightarrow> exprptr list option" where
  "expr_children e =
     (case variability e of
        SCIP_CONSEXPR_INVARIATE \<Rightarrow> Some []
      | SCIP_CONSEXPR_UNIVARIATE \<Rightarrow>
          (case children e of single c \<Rightarrow> Some [c] | _ \<Rightarrow> None)
      | SCIP_CONSEXPR_BIVARIATE \<Rightarrow>
          (case children e of pair c d \<Rightarrow> Some [c, d] | _ \<Rightarrow> None)
      | SCIP_CONSEXPR_MULTIVARIATE \<Rightarrow>
          (case children e of
             array nchildren childrensize cs \<Rightarrow>
               if nchildren \<le> childrensize \<and> childrensize = length cs
               then Some (take nchildren cs) else None
           | _ \<Rightarrow> None))"

definition kids :: "SCIP_ConsExpr_Expr \<Rightarrow> exprptr list" where
  "kids e = (case expr_children e of None \<Rightarrow> [] | Some cs \<Rightarrow> cs)"




subsection \<open>Create, capture and release\<close>











subsection \<open>Owning slots\<close>

text \<open>
  The owning slots that point at a node are the child slots of the allocated nodes and
  the external holds. The external holds are not stored in the graph: they are the
  references that the callers keep, given here as a multiset of addresses.
\<close>

definition slots :: "SCIP_ConsExpr_Expr option \<Rightarrow> exprptr \<Rightarrow> nat" where
  "slots v x = (case v of None \<Rightarrow> 0 | Some e \<Rightarrow> count_list (kids e) x)"




subsection \<open>Sequences of captures and releases\<close>

datatype refop = Capture exprptr | Release exprptr






text \<open>
  The captures of a node in a sequence less the releases of it.
\<close>

definition net :: "refop list \<Rightarrow> exprptr \<Rightarrow> int" where
  "net ops a = int (count_list ops (Capture a)) - int (count_list ops (Release a))"

subsection \<open>The expression \<open>x^2 + x\<close>\<close>








section \<open>Detection of quadratic expressions\<close>














subsection \<open>The expression of the test detectandfree2\<close>




section \<open>Properties of the expression handlers\<close>





section \<open>Properties of the FlatZinc reader\<close>

lemmas monad_defs = ret_def bnd_def seq_def fault_def gets_def upd_def determinate_def
  message_def modify_scip_def

subsection \<open>Running the reader on a given text\<close>

text \<open>
  A loop with fuel given as a numeral unfolds one pass at a time, when it is applied to
  a state.
\<close>

lemma skipDelimiters_fuel:
  "skipDelimiters n s =
     (case n of 0 \<Rightarrow> Inl OutOfFuel | Suc m \<Rightarrow> skipDelimiter (skipDelimiters m) s)"
  by (cases n) (simp_all add: fault_def)

lemma parseListElements_fuel:
  "parseListElements n k es s =
     (case k of 0 \<Rightarrow> Inl OutOfFuel
      | Suc m \<Rightarrow> parseListElement n (parseListElements n m) es s)"
  by (cases k) (simp_all add: fault_def)

lemma skipToAssignments_fuel:
  "skipToAssignments n k s =
     (case k of 0 \<Rightarrow> Inl OutOfFuel
      | Suc m \<Rightarrow> skipToAssignment n (skipToAssignments n m) s)"
  by (cases k) (simp_all add: fault_def)

lemma skipSolveAnnotations_fuel:
  "skipSolveAnnotations n k s =
     (case k of 0 \<Rightarrow> Inl OutOfFuel
      | Suc m \<Rightarrow> skipSolveAnnotation n (skipSolveAnnotations n m) s)"
  by (cases k) (simp_all add: fault_def)

lemma skipAnnotations_fuel:
  "skipAnnotations n k s =
     (case k of 0 \<Rightarrow> Inl OutOfFuel
      | Suc m \<Rightarrow> skipAnnotation n (skipAnnotations n m) s)"
  by (cases k) (simp_all add: fault_def)

lemma readStatements_fuel:
  "readStatements n k s =
     (case k of 0 \<Rightarrow> Inl OutOfFuel
      | Suc m \<Rightarrow> readStatement n (readStatements n m) s)"
  by (cases k) (simp_all add: fault_def)

lemmas fuel_unfold = skipDelimiters_fuel parseListElements_fuel skipToAssignments_fuel
  skipSolveAnnotations_fuel skipAnnotations_fuel readStatements_fuel

lemmas fuel_simps = skipDelimiters.simps parseListElements.simps skipToAssignments.simps
  skipSolveAnnotations.simps skipAnnotations.simps readStatements.simps

lemmas run_defs = Let_def monad_defs get_prob_def set_prob_def element_def
  NUL_def delimchars_def tokenchars_def commentchars_def isdigit_def isalpha_def
  isalnum_def strchr_found_def isDelimChar_def isTokenChar_def isChar_def nextchar_def
  cstring_def isspace_def
  getNextToken_def getNextLine_def SCIPfgets_def FZN_BUFFERLEN_def bufchar_def
  isValueChar_def advance_def pushToken_def curtoken_def isEndStatment_def equalTokens_def
  strncmp_eq_def skipDelimiter_def syntaxError_def hasError_def SCIPfeof_def
  getNextToken_isChar_def string_of_int_def string_of_nat.simps isIdentifier_def
  SCIPcreateProb_def SCIPfreeProb_def SCIPaddVar_def SCIPaddCons_def emptyProb_def
  SCIPsetObjsense_def SCIPinfinity_def SCIPsnprintf_def SCIPhashtableRetrieve_def
  SCIPhashtableInsert_def SCIPfopen_def SCIPfclose_def
  parseVariable_def parseType_def parseName_def skipToAssignment_def createVariable_def
  parseStatement_def closeStatement_def readStatement_def finishRead_def readFZNFile_def
  readerReadFzn_def initFznInput_def initial_state_def


text \<open>
  Three statements, the second one malformed: the read ends with a parse error, the
  problem holds neither the variable of the first statement nor the two constants of the
  reader, and the third statement is still unread in the stream.
\<close>

lemma read_malformed_statement:
  "readerReadFzn 50 ''m.fzn'' SCIP_DIDNOTRUN
     (initial_state ''m.fzn'' ''var bool: a;\<newline>var ;\<newline>var bool: b;\<newline>'')
   = Inr ((SCIP_PARSEERROR, SCIP_DIDNOTRUN),
      \<lparr>scip =
         \<lparr>origprob =
            Some \<lparr>prob_name = ''m.fzn'', prob_vars = [], prob_conss = [],
                   prob_objsense = SCIP_OBJSENSE_MINIMIZE\<rparr>,
            messages =
              [VerbMessage ''Syntax error in line 2: missing token found <;>\<newline>'',
               VerbMessage ''  input: var ;\<newline>'', VerbMessage ''\<newline>'']\<rparr>,
         fzninput =
           \<lparr>infile = Some \<lparr>unread = ''var bool: b;\<newline>'', eof = False\<rparr>,
              varHashtable = [(''a'', 2), (''false'', 1), (''true'', 0)], constantHashtable = [], constants = [],
              linebuf = ''var ;\<newline>'', token = Some '';'', pushedtokens = None,
              npushedtokens = 0, linenumber = 2, linepos = 5, bufpos = 5,
              nconstants = 0, sconstants = 10, objsense = SCIP_OBJSENSE_MINIMIZE,
              hasdot = None, endline = True, haserror = True, valid = True\<rparr>,
         files = [(''m.fzn'', ''var bool: a;\<newline>var ;\<newline>var bool: b;\<newline>'')],
         nopen = 0\<rparr>)"
  by (simp add: run_defs fuel_unfold del: fuel_simps)

text \<open>
  A variable and then a set item: the read ends with success, and the problem is empty.
\<close>

lemma read_set_item:
  "readerReadFzn 50 ''m.fzn'' SCIP_DIDNOTRUN
     (initial_state ''m.fzn'' ''var bool: a;\<newline>set of int: s;\<newline>'')
   = Inr ((SCIP_OKAY, SCIP_SUCCESS),
      \<lparr>scip =
         \<lparr>origprob =
            Some \<lparr>prob_name = ''m.fzn'', prob_vars = [], prob_conss = [],
                   prob_objsense = SCIP_OBJSENSE_MINIMIZE\<rparr>,
            messages = [WarningMessage ''sets are not supported yet\<newline>'']\<rparr>,
         fzninput =
           \<lparr>infile = Some \<lparr>unread = [], eof = False\<rparr>,
              varHashtable = [(''a'', 2), (''false'', 1), (''true'', 0)], constantHashtable = [], constants = [],
              linebuf = ''set of int: s;\<newline>'', token = Some ''set'', pushedtokens = None,
              npushedtokens = 0, linenumber = 2, linepos = 3, bufpos = 3,
              nconstants = 0, sconstants = 10, objsense = SCIP_OBJSENSE_MINIMIZE,
              hasdot = None, endline = True, haserror = False, valid = False\<rparr>,
         files = [(''m.fzn'', ''var bool: a;\<newline>set of int: s;\<newline>'')],
         nopen = 0\<rparr>)"
  by (simp add: run_defs fuel_unfold del: fuel_simps)

text \<open>
  The first token of \<open>var ;\<close> and the statement that it starts.
\<close>

lemma example_statement_token:
  "getNextToken 50 example_statement_state
   = Inr (True,
      \<lparr>scip = \<lparr>origprob = Some (emptyProb ''m.fzn''), messages = []\<rparr>,
         fzninput =
           \<lparr>infile = Some \<lparr>unread = [], eof = True\<rparr>,
              varHashtable = [], constantHashtable = [], constants = [],
              linebuf = ''var ;'', token = Some ''var'', pushedtokens = None,
              npushedtokens = 0, linenumber = 1, linepos = 65537, bufpos = 3,
              nconstants = 0, sconstants = 10, objsense = SCIP_OBJSENSE_MINIMIZE,
              hasdot = None, endline = True, haserror = False, valid = True\<rparr>,
         files = [], nopen = 1\<rparr>)"
  by (simp add: example_statement_state_def run_defs fuel_unfold del: fuel_simps)

lemma example_statement_parse:
  "parseStatement 50 ''var''
     (\<lparr>scip = \<lparr>origprob = Some (emptyProb ''m.fzn''), messages = []\<rparr>,
         fzninput =
           \<lparr>infile = Some \<lparr>unread = [], eof = True\<rparr>,
              varHashtable = [], constantHashtable = [], constants = [],
              linebuf = ''var ;'', token = Some ''var'', pushedtokens = None,
              npushedtokens = 0, linenumber = 1, linepos = 65537, bufpos = 3,
              nconstants = 0, sconstants = 10, objsense = SCIP_OBJSENSE_MINIMIZE,
              hasdot = None, endline = True, haserror = False, valid = True\<rparr>,
         files = [], nopen = 1\<rparr>)
   = Inr (Proceed,
      \<lparr>scip =
         \<lparr>origprob = Some (emptyProb ''m.fzn''),
            messages =
              [VerbMessage ''Syntax error in line 1: missing token found <;>\<newline>'',
               VerbMessage ''  input: var ;'', VerbMessage ''\<newline>'']\<rparr>,
         fzninput =
           \<lparr>infile = Some \<lparr>unread = [], eof = True\<rparr>,
              varHashtable = [], constantHashtable = [], constants = [],
              linebuf = ''var ;'', token = Some '';'', pushedtokens = None,
              npushedtokens = 0, linenumber = 1, linepos = 65539, bufpos = 5,
              nconstants = 0, sconstants = 10, objsense = SCIP_OBJSENSE_MINIMIZE,
              hasdot = None, endline = True, haserror = True, valid = True\<rparr>,
         files = [], nopen = 1\<rparr>)"
  by (simp add: run_defs fuel_unfold del: fuel_simps)

subsection \<open>What an error does to a read\<close>




lemma parseStatement_Return:
  assumes "parseStatement n tok s = Inr (Return rc, s')"
  shows "rc = SCIP_OKAY \<and> hasError (fzninput s')"
  using assms
  by (auto simp: parseStatement_def curtoken_def monad_defs
      split: if_splits sum.splits prod.splits option.splits)

lemma readStatement_Return:
  assumes "readStatement n continue s = Inr (Some rc, s')"
    and "\<And>t t'. continue t = Inr (Some rc, t') \<Longrightarrow> rc = SCIP_OKAY \<and> hasError (fzninput t')"
  shows "rc = SCIP_OKAY \<and> hasError (fzninput s')"
  using assms
  by (auto simp: readStatement_def monad_defs dest!: parseStatement_Return
      split: if_splits sum.splits prod.splits control.splits option.splits)

lemma readStatements_Return:
  "readStatements n k s = Inr (Some rc, s') \<Longrightarrow> rc = SCIP_OKAY \<and> hasError (fzninput s')"
proof (induction k arbitrary: s s')
  case 0
  then show ?case by (simp add: fault_def)
next
  case (Suc k)
  show ?case
    by (rule readStatement_Return[of n "readStatements n k" s rc s'])
       (use Suc in auto)
qed

lemma readStatement_stops:
  assumes "infile (fzninput s) = Some f" and "\<not> eof f" and "\<not> hasError (fzninput s)"
    and "getNextToken n s = Inr (True, s1)" and "token (fzninput s1) = Some tok"
    and "parseStatement n tok s1 = Inr (Proceed, s2)" and "hasError (fzninput s2)"
  shows "readStatement n continue s = Inr (None, s2)"
  using assms by (simp add: readStatement_def SCIPfeof_def curtoken_def monad_defs)

lemma finishRead_result:
  assumes "finishRead filename s = Inr (rc, s')"
  shows "rc = SCIP_OKAY \<and> fzninput s' = fzninput s
     \<and> (hasError (fzninput s) \<longrightarrow> origprob (scip s') = Some (emptyProb filename))"
  using assms
  by (auto simp: finishRead_def SCIPfclose_def SCIPfreeProb_def SCIPcreateProb_def set_prob_def
      SCIPsetObjsense_def get_prob_def monad_defs
      split: if_splits sum.splits prod.splits option.splits)

lemma bnd_InrE:
  assumes "bnd m f s = Inr r"
  obtains x s1 where "m s = Inr (x, s1)" and "f x s1 = Inr r"
  using assms by (auto simp: bnd_def split: sum.splits)

lemma seq_InrE:
  assumes "seq m k s = Inr r"
  obtains s1 where "m s = Inr ((), s1)" and "k s1 = Inr r"
  using assms by (auto simp: seq_def bnd_def split: sum.splits)

lemma readFZNFile_result:
  assumes "readFZNFile n filename s = Inr (rc, s')"
  shows "(rc = SCIP_OKAY \<or> (rc = SCIP_NOFILE \<and> fzninput s' = (fzninput s)\<lparr>infile := None\<rparr>))
     \<and> (rc = SCIP_OKAY \<and> hasError (fzninput s') \<longrightarrow>
          origprob (scip s') = Some (emptyProb filename)
          \<or> (\<exists>s1. readStatements n n s1 = Inr (Some SCIP_OKAY, s')))"
proof -
  from assms obtain f s0 where
    op: "SCIPfopen filename s = Inr (f, s0)" and
    rest: "seq (upd (\<lambda>i. i\<lparr>infile := f\<rparr>))
       (case f of
          None \<Rightarrow>
            seq (message (ErrorMessage (''cannot open file <'' @ filename @ ''> for reading\<newline>'')))
           (seq (message (SysError filename))
                (ret SCIP_NOFILE))
        | Some _ \<Rightarrow>
            seq (SCIPcreateProb filename)
           (bnd (createVariable ''true'' 1 1 FZN_BOOL) (\<lambda>_.
            bnd (createVariable ''false'' 0 0 FZN_BOOL) (\<lambda>_.
            bnd (readStatements n n) (\<lambda>returned.
              case returned of
                Some retcode \<Rightarrow> ret retcode
              | None \<Rightarrow> finishRead filename))))) s0 = Inr (rc, s')"
    unfolding readFZNFile_def by (erule bnd_InrE)
  have fz0: "fzninput s0 = fzninput s"
    using op by (auto simp: SCIPfopen_def split: option.splits)
  show ?thesis
  proof (cases f)
    case None
    with rest fz0 show ?thesis
      by (auto simp: monad_defs)
  next
    case (Some g)
    with rest obtain returned s2 where
      fin: "(case returned of Some retcode \<Rightarrow> ret retcode | None \<Rightarrow> finishRead filename) s2
              = Inr (rc, s')" and
      loop: "\<exists>s1. readStatements n n s1 = Inr (returned, s2)"
      by (auto elim!: seq_InrE bnd_InrE)
    show ?thesis
    proof (cases returned)
      case None
      with fin have "finishRead filename s2 = Inr (rc, s')" by simp
      from finishRead_result[OF this] show ?thesis by simp
    next
      case (Some retcode)
      with fin have eq: "retcode = rc" "s2 = s'" by (simp_all add: ret_def)
      from loop Some eq obtain s1 where l: "readStatements n n s1 = Inr (Some rc, s')" by auto
      from readStatements_Return[OF l] l show ?thesis by auto
    qed
  qed
qed

lemma readerReadFzn_result:
  assumes "readerReadFzn n filename result s = Inr ((retcode, result'), s')"
  shows "(haserror (fzninput s') \<longrightarrow> retcode = SCIP_PARSEERROR \<and> result' = result)
       \<and> (\<not> haserror (fzninput s') \<and> \<not> valid (fzninput s') \<longrightarrow>
            retcode = SCIP_OKAY \<and> result' = SCIP_SUCCESS)
       \<and> (hasError (fzninput s') \<longrightarrow>
            origprob (scip s') = Some (emptyProb filename)
            \<or> (\<exists>s1. readStatements n n s1 = Inr (Some SCIP_OKAY, s')))"
proof -
  from assms obtain s0 s1 rc where
    init: "upd (\<lambda>_. initFznInput) s = Inr ((), s0)" and
    rd1: "readFZNFile n filename s0 = Inr (rc, s1)" and
    ev1: "(if rc \<noteq> SCIP_OKAY then ret (rc, result)
          else bnd (gets haserror) (\<lambda>err.
            if err then ret (SCIP_PARSEERROR, result) else ret (SCIP_OKAY, SCIP_SUCCESS))) s1
         = Inr ((retcode, result'), s')"
    unfolding readerReadFzn_def
    by (elim seq_InrE bnd_InrE)
  from ev1 have "s1 = s'"
    by (auto simp: monad_defs split: if_splits)
  with rd1 ev1 have
    rd: "readFZNFile n filename s0 = Inr (rc, s')" and
    ev: "(if rc \<noteq> SCIP_OKAY then ret (rc, result)
          else bnd (gets haserror) (\<lambda>err.
            if err then ret (SCIP_PARSEERROR, result) else ret (SCIP_OKAY, SCIP_SUCCESS))) s'
         = Inr ((retcode, result'), s')"
    by simp_all
  have fz0: "fzninput s0 = initFznInput"
    using init by (auto simp: upd_def)
  note r = readFZNFile_result[OF rd]
  show ?thesis
  proof (cases "rc = SCIP_OKAY")
    case True
    with ev r show ?thesis
      by (auto simp: monad_defs hasError_def split: if_splits)
  next
    case False
    with r fz0 have "fzninput s' = initFznInput\<lparr>infile := None\<rparr>" by auto
    then have "\<not> haserror (fzninput s') \<and> valid (fzninput s')"
      by (simp add: initFznInput_def)
    then show ?thesis by (simp add: hasError_def)
  qed
qed




text \<open>
  C10, as stated, fails on the reader for an unsupported set item: the read stops and the
  problem is replaced by an empty one, but the reader returns \<open>SCIP_OKAY\<close> with the
  result \<open>SCIP_SUCCESS\<close> and not a parse error. A set item clears \<open>valid\<close> and
  leaves \<open>haserror\<close> as it is, and the reader returns \<open>SCIP_PARSEERROR\<close> for
  \<open>haserror\<close> only.
\<close>

theorem readerReadFzn_set_counterexample:
  "readerReadFzn 50 ''m.fzn'' SCIP_DIDNOTRUN
     (initial_state ''m.fzn'' ''var bool: a;\<newline>set of int: s;\<newline>'')
   = Inr ((SCIP_OKAY, SCIP_SUCCESS),
      \<lparr>scip =
         \<lparr>origprob =
            Some \<lparr>prob_name = ''m.fzn'', prob_vars = [], prob_conss = [],
                   prob_objsense = SCIP_OBJSENSE_MINIMIZE\<rparr>,
            messages = [WarningMessage ''sets are not supported yet\<newline>'']\<rparr>,
         fzninput =
           \<lparr>infile = Some \<lparr>unread = [], eof = False\<rparr>,
              varHashtable = [(''a'', 2), (''false'', 1), (''true'', 0)], constantHashtable = [], constants = [],
              linebuf = ''set of int: s;\<newline>'', token = Some ''set'', pushedtokens = None,
              npushedtokens = 0, linenumber = 2, linepos = 3, bufpos = 3,
              nconstants = 0, sconstants = 10, objsense = SCIP_OBJSENSE_MINIMIZE,
              hasdot = None, endline = True, haserror = False, valid = False\<rparr>,
         files = [(''m.fzn'', ''var bool: a;\<newline>set of int: s;\<newline>'')],
         nopen = 0\<rparr>)"
  by (rule read_set_item)

text \<open>
  C10, amended: the statement loop ends with the statement that raised an error, whatever
  follows it. When the read returns after a syntax error (\<open>haserror\<close>), it returns
  \<open>SCIP_PARSEERROR\<close> and leaves the caller's result as it was. When it returns with the
  input only marked as not valid (an unsupported item such as a set), it returns
  \<open>SCIP_OKAY\<close> with the result \<open>SCIP_SUCCESS\<close>. In both cases the problem is then the
  empty problem created afresh under the file's name, except when \<open>readFZNFile\<close> was
  left through the return inside its loop (the branch for a statement with no known
  keyword), about which nothing is said.
\<close>

theorem readerReadFzn_error_result:
  "(readerReadFzn n filename result s = Inr ((retcode, result'), s') \<longrightarrow>
       (haserror (fzninput s') \<longrightarrow> retcode = SCIP_PARSEERROR \<and> result' = result)
     \<and> (\<not> haserror (fzninput s') \<and> \<not> valid (fzninput s') \<longrightarrow>
            retcode = SCIP_OKAY \<and> result' = SCIP_SUCCESS)
     \<and> (hasError (fzninput s') \<longrightarrow>
            origprob (scip s') = Some (emptyProb filename)
            \<or> (\<exists>s1. readStatements n n s1 = Inr (Some SCIP_OKAY, s'))))
   \<and> (infile (fzninput t) = Some f \<and> \<not> eof f \<and> \<not> hasError (fzninput t)
      \<and> getNextToken n t = Inr (True, t1) \<and> token (fzninput t1) = Some tok
      \<and> parseStatement n tok t1 = Inr (Proceed, t2) \<and> hasError (fzninput t2) \<longrightarrow>
       readStatement n continue t = Inr (None, t2))"
  using readerReadFzn_result[of n filename result s retcode result' s']
    readStatement_stops[of t f n t1 tok t2 continue]
  by blast

theorem readerReadFzn_error_result_witness:
  "readerReadFzn 50 ''m.fzn'' SCIP_DIDNOTRUN
     (initial_state ''m.fzn'' ''var bool: a;\<newline>var ;\<newline>var bool: b;\<newline>'')
   = Inr ((SCIP_PARSEERROR, SCIP_DIDNOTRUN),
      \<lparr>scip =
         \<lparr>origprob =
            Some \<lparr>prob_name = ''m.fzn'', prob_vars = [], prob_conss = [],
                   prob_objsense = SCIP_OBJSENSE_MINIMIZE\<rparr>,
            messages =
              [VerbMessage ''Syntax error in line 2: missing token found <;>\<newline>'',
               VerbMessage ''  input: var ;\<newline>'', VerbMessage ''\<newline>'']\<rparr>,
         fzninput =
           \<lparr>infile = Some \<lparr>unread = ''var bool: b;\<newline>'', eof = False\<rparr>,
              varHashtable = [(''a'', 2), (''false'', 1), (''true'', 0)], constantHashtable = [], constants = [],
              linebuf = ''var ;\<newline>'', token = Some '';'', pushedtokens = None,
              npushedtokens = 0, linenumber = 2, linepos = 5, bufpos = 5,
              nconstants = 0, sconstants = 10, objsense = SCIP_OBJSENSE_MINIMIZE,
              hasdot = None, endline = True, haserror = True, valid = True\<rparr>,
         files = [(''m.fzn'', ''var bool: a;\<newline>var ;\<newline>var bool: b;\<newline>'')],
         nopen = 0\<rparr>)
   \<and> origprob (scip (\<lparr>scip =
         \<lparr>origprob =
            Some \<lparr>prob_name = ''m.fzn'', prob_vars = [], prob_conss = [],
                   prob_objsense = SCIP_OBJSENSE_MINIMIZE\<rparr>,
            messages =
              [VerbMessage ''Syntax error in line 2: missing token found <;>\<newline>'',
               VerbMessage ''  input: var ;\<newline>'', VerbMessage ''\<newline>'']\<rparr>,
         fzninput =
           \<lparr>infile = Some \<lparr>unread = ''var bool: b;\<newline>'', eof = False\<rparr>,
              varHashtable = [(''a'', 2), (''false'', 1), (''true'', 0)], constantHashtable = [], constants = [],
              linebuf = ''var ;\<newline>'', token = Some '';'', pushedtokens = None,
              npushedtokens = 0, linenumber = 2, linepos = 5, bufpos = 5,
              nconstants = 0, sconstants = 10, objsense = SCIP_OBJSENSE_MINIMIZE,
              hasdot = None, endline = True, haserror = True, valid = True\<rparr>,
         files = [(''m.fzn'', ''var bool: a;\<newline>var ;\<newline>var bool: b;\<newline>'')],
         nopen = 0\<rparr>)) = Some (emptyProb ''m.fzn'')
   \<and> readStatement 50 (fault Undefined) example_statement_state
     = Inr (None,
      \<lparr>scip =
         \<lparr>origprob = Some (emptyProb ''m.fzn''),
            messages =
              [VerbMessage ''Syntax error in line 1: missing token found <;>\<newline>'',
               VerbMessage ''  input: var ;'', VerbMessage ''\<newline>'']\<rparr>,
         fzninput =
           \<lparr>infile = Some \<lparr>unread = [], eof = True\<rparr>,
              varHashtable = [], constantHashtable = [], constants = [],
              linebuf = ''var ;'', token = Some '';'', pushedtokens = None,
              npushedtokens = 0, linenumber = 1, linepos = 65539, bufpos = 5,
              nconstants = 0, sconstants = 10, objsense = SCIP_OBJSENSE_MINIMIZE,
              hasdot = None, endline = True, haserror = True, valid = True\<rparr>,
         files = [], nopen = 1\<rparr>)"
proof -
  let ?s' = "\<lparr>scip =
         \<lparr>origprob =
            Some \<lparr>prob_name = ''m.fzn'', prob_vars = [], prob_conss = [],
                   prob_objsense = SCIP_OBJSENSE_MINIMIZE\<rparr>,
            messages =
              [VerbMessage ''Syntax error in line 2: missing token found <;>\<newline>'',
               VerbMessage ''  input: var ;\<newline>'', VerbMessage ''\<newline>'']\<rparr>,
         fzninput =
           \<lparr>infile = Some \<lparr>unread = ''var bool: b;\<newline>'', eof = False\<rparr>,
              varHashtable = [(''a'', 2), (''false'', 1), (''true'', 0)], constantHashtable = [], constants = [],
              linebuf = ''var ;\<newline>'', token = Some '';'', pushedtokens = None,
              npushedtokens = 0, linenumber = 2, linepos = 5, bufpos = 5,
              nconstants = 0, sconstants = 10, objsense = SCIP_OBJSENSE_MINIMIZE,
              hasdot = None, endline = True, haserror = True, valid = True\<rparr>,
         files = [(''m.fzn'', ''var bool: a;\<newline>var ;\<newline>var bool: b;\<newline>'')],
         nopen = 0\<rparr>"
  let ?t1 = "\<lparr>scip = \<lparr>origprob = Some (emptyProb ''m.fzn''), messages = []\<rparr>,
         fzninput =
           \<lparr>infile = Some \<lparr>unread = [], eof = True\<rparr>,
              varHashtable = [], constantHashtable = [], constants = [],
              linebuf = ''var ;'', token = Some ''var'', pushedtokens = None,
              npushedtokens = 0, linenumber = 1, linepos = 65537, bufpos = 3,
              nconstants = 0, sconstants = 10, objsense = SCIP_OBJSENSE_MINIMIZE,
              hasdot = None, endline = True, haserror = False, valid = True\<rparr>,
         files = [], nopen = 1\<rparr>"
  let ?t2 = "\<lparr>scip =
         \<lparr>origprob = Some (emptyProb ''m.fzn''),
            messages =
              [VerbMessage ''Syntax error in line 1: missing token found <;>\<newline>'',
               VerbMessage ''  input: var ;'', VerbMessage ''\<newline>'']\<rparr>,
         fzninput =
           \<lparr>infile = Some \<lparr>unread = [], eof = True\<rparr>,
              varHashtable = [], constantHashtable = [], constants = [],
              linebuf = ''var ;'', token = Some '';'', pushedtokens = None,
              npushedtokens = 0, linenumber = 1, linepos = 65539, bufpos = 5,
              nconstants = 0, sconstants = 10, objsense = SCIP_OBJSENSE_MINIMIZE,
              hasdot = None, endline = True, haserror = True, valid = True\<rparr>,
         files = [], nopen = 1\<rparr>"
  note inst = readerReadFzn_error_result[of 50 "''m.fzn''" SCIP_DIDNOTRUN
      "initial_state ''m.fzn'' ''var bool: a;\<newline>var ;\<newline>var bool: b;\<newline>''"
      SCIP_PARSEERROR SCIP_DIDNOTRUN ?s'
      example_statement_state "\<lparr>unread = ''var ;'', eof = False\<rparr>" ?t1 "''var''" ?t2
      "fault Undefined"]
  have h1: "infile (fzninput example_statement_state) = Some \<lparr>unread = ''var ;'', eof = False\<rparr>"
    and h2: "\<not> hasError (fzninput example_statement_state)"
    by (simp_all add: example_statement_state_def initFznInput_def hasError_def)
  have h3: "token (fzninput ?t1) = Some ''var''" and h4: "hasError (fzninput ?t2)"
    by (simp_all add: hasError_def)
  from inst have "readStatement 50 (fault Undefined) example_statement_state = Inr (None, ?t2)"
    using h1 h2 h3 h4 example_statement_token example_statement_parse by simp
  moreover have "origprob (scip ?s') = Some (emptyProb ''m.fzn'')"
    by (simp add: emptyProb_def)
  ultimately show ?thesis
    using read_malformed_statement by simp
qed

section \<open>Properties of the reference counts\<close>

subsection \<open>Children and slots\<close>

lemma expr_children_nuses [simp]:
  "expr_children (e\<lparr>nuses := k\<rparr>) = expr_children e"
  by (simp add: expr_children_def split: SCIP_CONSEXPR_VARIABILITY.splits)

lemma kids_nuses [simp]:
  "kids (e\<lparr>nuses := k\<rparr>) = kids e"
  by (simp add: kids_def)

lemma slots_nuses [simp]:
  "slots (Some (e\<lparr>nuses := k\<rparr>)) x = slots (Some e) x"
  by (simp add: slots_def)






subsection \<open>The invariant under a single change of the graph\<close>









subsection \<open>Capture of the children\<close>



subsection \<open>Release\<close>















subsection \<open>The graphs built by create, capture and release\<close>



subsection \<open>Sequences of captures and releases\<close>

lemma net_simps [simp]:
  "net [] a = 0"
  "net (Capture b # ops) a = net ops a + (if b = a then 1 else 0)"
  "net (Release b # ops) a = net ops a - (if b = a then 1 else 0)"
  by (simp_all add: net_def)







subsection \<open>The expression \<open>x^2 + x\<close>\<close>







subsection \<open>The reference counts of an expression graph\<close>




section \<open>Properties of the detection of quadratic expressions\<close>

subsection \<open>The order of the bilinear entries\<close>








subsection \<open>The square of a sum\<close>



subsection \<open>The decomposition of \<open>x^2 + 2 x w + w^2\<close>\<close>




end
